theory Spec2Isabelle
  imports Complex_Main
begin

section \<open>JavaScript strings\<close>

text \<open>
  The extension handles file names and filter texts as JavaScript strings. They are
  modelled as HOL strings whose characters are read as ASCII: \<open>toLowerCase\<close> maps the
  letters A to Z to a to z and leaves every other character alone, and \<open>trim\<close> removes
  the ASCII white space (space, tab, line feed, vertical tab, form feed, carriage return)
  at both ends. Characters beyond ASCII are outside the model.
\<close>

definition lowerChar :: "char \<Rightarrow> char" where
  "lowerChar c =
     (case map_of (zip ''ABCDEFGHIJKLMNOPQRSTUVWXYZ'' ''abcdefghijklmnopqrstuvwxyz'') c of
        Some d \<Rightarrow> d
      | None \<Rightarrow> c)"

definition toLowerCase :: "string \<Rightarrow> string" where
  "toLowerCase s = map lowerChar s"

definition isWhiteSpace :: "char \<Rightarrow> bool" where
  "isWhiteSpace c = (c \<in> set [CHR 0x20, CHR 0x09, CHR 0x0A, CHR 0x0B, CHR 0x0C, CHR 0x0D])"

definition trim :: "string \<Rightarrow> string" where
  "trim s = rev (dropWhile isWhiteSpace (rev (dropWhile isWhiteSpace s)))"

text \<open>\<open>s.replace(/^\./, '')\<close>: the pattern is anchored and not global, so exactly one
  leading dot is removed, when there is one.\<close>

fun stripLeadingDot :: "string \<Rightarrow> string" where
  "stripLeadingDot [] = []"
| "stripLeadingDot (c # cs) = (if c = CHR ''.'' then cs else c # cs)"

text \<open>\<open>s.startsWith(p)\<close>.\<close>

fun startsWith :: "string \<Rightarrow> string \<Rightarrow> bool" where
  "startsWith s [] = True"
| "startsWith [] (p # ps) = False"
| "startsWith (c # cs) (p # ps) = (c = p \<and> startsWith cs ps)"

text \<open>\<open>s.split(sep)\<close> for a separator that is one character out of a class: the pieces
  between the separators, in order; a string without separator is the only piece, and the
  empty string gives one empty piece.\<close>

fun split :: "(char \<Rightarrow> bool) \<Rightarrow> string \<Rightarrow> string list" where
  "split sep [] = [[]]"
| "split sep (c # cs) =
     (if sep c then [] # split sep cs
      else (case split sep cs of
              [] \<Rightarrow> [[c]]
            | w # ws \<Rightarrow> (c # w) # ws))"

definition quoted :: "string \<Rightarrow> string" where
  "quoted s = CHR 0x22 # s @ [CHR 0x22]"

section \<open>JavaScript values and the settings record (src/shared/config.js)\<close>

datatype jsnum = NaN | NegInfinity | Finite real | PosInfinity

datatype jsval =
    JUndefined
  | JNull
  | JBool bool
  | JNum jsnum
  | JStr string
  | JArr "jsval list"
  | JObj "(string \<times> jsval) list"

text \<open>\<open>v?.k\<close> for the five setting names: the property of an object (its keys are
  distinct, so the first binding is the binding), \<open>undefined\<close> on \<open>null\<close>,
  \<open>undefined\<close> and on every primitive and array, none of which has such a property.\<close>

fun getProp :: "jsval \<Rightarrow> string \<Rightarrow> jsval" where
  "getProp (JObj kvs) k = (case map_of kvs k of Some v \<Rightarrow> v | None \<Rightarrow> JUndefined)"
| "getProp v k = JUndefined"

fun truthy :: "jsval \<Rightarrow> bool" where
  "truthy JUndefined = False"
| "truthy JNull = False"
| "truthy (JBool b) = b"
| "truthy (JNum n) = (n \<noteq> NaN \<and> n \<noteq> Finite 0)"
| "truthy (JStr s) = (s \<noteq> [])"
| "truthy (JArr vs) = True"
| "truthy (JObj kvs) = True"

record settings =
  enabled :: bool
  prefixFilter :: string
  extensionFilter :: string
  showNotifications :: bool
  maxHistoryItems :: jsnum

definition getDefaultSettings :: settings where
  "getDefaultSettings =
     \<lparr>enabled = False, prefixFilter = [], extensionFilter = [],
      showNotifications = True, maxHistoryItems = Finite 100\<rparr>"

text \<open>Each field is taken from the input when \<open>typeof\<close> gives the expected type and from
  the defaults otherwise; a string is trimmed, the extension also lower-cased and one
  leading dot removed.\<close>

definition validateSettings :: "jsval \<Rightarrow> settings" where
  "validateSettings v =
     \<lparr>enabled =
        (case getProp v ''enabled'' of JBool b \<Rightarrow> b | _ \<Rightarrow> enabled getDefaultSettings),
      prefixFilter =
        (case getProp v ''prefixFilter'' of
           JStr s \<Rightarrow> trim s
         | _ \<Rightarrow> prefixFilter getDefaultSettings),
      extensionFilter =
        (case getProp v ''extensionFilter'' of
           JStr s \<Rightarrow> stripLeadingDot (toLowerCase (trim s))
         | _ \<Rightarrow> extensionFilter getDefaultSettings),
      showNotifications =
        (case getProp v ''showNotifications'' of
           JBool b \<Rightarrow> b
         | _ \<Rightarrow> showNotifications getDefaultSettings),
      maxHistoryItems =
        (case getProp v ''maxHistoryItems'' of
           JNum n \<Rightarrow> n
         | _ \<Rightarrow> maxHistoryItems getDefaultSettings)\<rparr>"

section \<open>The filter engine (the service worker, in scripts/create-png-icons.js)\<close>

record download_item =
  dl_filename :: string
  dl_fileSize :: "int option"

definition isPathSeparator :: "char \<Rightarrow> bool" where
  "isPathSeparator c = (c = CHR ''/'' \<or> c = CHR 0x5C)"

definition getFilename :: "download_item \<Rightarrow> string" where
  "getFilename downloadItem =
     (if dl_filename downloadItem \<noteq> []
      then last (split isPathSeparator (dl_filename downloadItem))
      else [])"

definition getFileExtension :: "string \<Rightarrow> string" where
  "getFileExtension name =
     (let parts = split (\<lambda>c. c = CHR ''.'') name
      in if length parts > 1 then toLowerCase (last parts) else [])"

record filter_result =
  matches :: bool
  prefixMatch :: bool
  extensionMatch :: bool
  details :: "string list"

text \<open>\<open>checkFilters\<close> reads the cached settings, \<open>null\<close> until they are loaded, and
  updates the result record block by block. A filter is applied when its text is truthy
  (not empty) and still not empty once trimmed; the comparison itself uses the text as it
  is stored.\<close>

definition checkFilters :: "settings option \<Rightarrow> string \<Rightarrow> filter_result" where
  "checkFilters cur name =
     (let result = \<lparr>matches = True, prefixMatch = True, extensionMatch = True, details = []\<rparr>
      in case cur of
           None \<Rightarrow> result\<lparr>matches := False, details := details result @ [''Settings not loaded'']\<rparr>
         | Some s \<Rightarrow>
             (let pf = prefixFilter s;
                  ef = extensionFilter s;
                  result1 =
                    (if pf \<noteq> [] \<and> trim pf \<noteq> []
                     then (let r = result\<lparr>prefixMatch :=
                                     startsWith (toLowerCase name) (toLowerCase pf)\<rparr>
                           in if \<not> prefixMatch r
                              then r\<lparr>matches := False,
                                     details := details r @
                                       [''Prefix '' @ quoted pf @ '' not matched'']\<rparr>
                              else r)
                     else result);
                  result2 =
                    (if ef \<noteq> [] \<and> trim ef \<noteq> []
                     then (let fileExt = getFileExtension name;
                               filterExt = stripLeadingDot (toLowerCase ef);
                               r = result1\<lparr>extensionMatch := (fileExt = filterExt)\<rparr>
                           in if \<not> extensionMatch r
                              then r\<lparr>matches := False,
                                     details := details r @
                                       [''Extension '' @ quoted (''.'' @ filterExt) @
                                        '' not matched (file has '' @ quoted (''.'' @ fileExt) @ '')'']\<rparr>
                              else r)
                     else result1)
              in result2))"

text \<open>The wording of the specification, for comparison with \<open>getFileExtension\<close>: the
  substring after the last dot, empty when the name has no dot.\<close>

definition substringAfterLastDot :: "string \<Rightarrow> string" where
  "substringAfterLastDot f =
     (if CHR ''.'' \<in> set f then rev (takeWhile (\<lambda>c. c \<noteq> CHR ''.'') (rev f)) else [])"

section \<open>Storage and the print history (the storage manager, unnamed/part_001)\<close>

record history_item =
  filename :: string
  fullPath :: string
  status :: string
  fileSize :: "int option"
  error :: "string option"

record history_entry =
  entry_id :: int
  timestamp :: string
  entry_item :: history_item

text \<open>
  \<open>chrome.storage.local\<close>: whether a storage API exists at all, whether its \<open>get\<close> and
  \<open>set\<close> reject (with which message), and what is stored under the two keys
  \<open>autoprint_settings\<close> (any JSON value: nothing checks it on the way in) and
  \<open>autoprint_history\<close> (only this module writes it, always a list of entries). An
  absent key is \<open>None\<close>. A thrown \<open>Error\<close> is its message, on the left of a sum.
\<close>

record storage =
  api_present :: bool
  get_fault :: "string option"
  set_fault :: "string option"
  settings_slot :: "jsval option"
  history_slot :: "history_entry list option"

definition getStorageAPI :: "storage \<Rightarrow> string + unit" where
  "getStorageAPI st =
     (if api_present st then Inr () else Inl ''No compatible storage API found'')"

definition loadSettings :: "storage \<Rightarrow> string + settings" where
  "loadSettings st =
     (case getStorageAPI st of
        Inl e \<Rightarrow> Inr getDefaultSettings
      | Inr u \<Rightarrow>
          (case get_fault st of
             Some e \<Rightarrow> Inr getDefaultSettings
           | None \<Rightarrow>
               (let found = (case settings_slot st of None \<Rightarrow> JUndefined | Some v \<Rightarrow> v);
                    raw = (if truthy found then found else JObj [])
                in Inr (validateSettings raw))))"

definition loadPrintHistory :: "storage \<Rightarrow> string + history_entry list" where
  "loadPrintHistory st =
     (case getStorageAPI st of
        Inl e \<Rightarrow> Inr []
      | Inr u \<Rightarrow>
          (case get_fault st of
             Some e \<Rightarrow> Inr []
           | None \<Rightarrow> Inr (case history_slot st of None \<Rightarrow> [] | Some h \<Rightarrow> h)))"

text \<open>\<open>history.length > settings.maxHistoryItems\<close>: a comparison with \<open>NaN\<close> is false.\<close>

fun lengthExceeds :: "nat \<Rightarrow> jsnum \<Rightarrow> bool" where
  "lengthExceeds n NaN = False"
| "lengthExceeds n NegInfinity = True"
| "lengthExceeds n (Finite r) = (real n > r)"
| "lengthExceeds n PosInfinity = False"

text \<open>The trimming loop \<open>while (history.length > cap) history.pop()\<close>. \<open>pop\<close> on an
  empty array leaves it empty, so under a negative cap the loop never ends: the result
  is \<open>None\<close> then.\<close>

partial_function (option) trimHistory :: "jsnum \<Rightarrow> history_entry list \<Rightarrow> history_entry list option"
  where
  "trimHistory cap history =
     (if lengthExceeds (length history) cap then trimHistory cap (butlast history)
      else Some history)"

record clock =
  date_now :: int
  date_iso :: string

definition newEntry :: "clock \<Rightarrow> history_item \<Rightarrow> history_entry" where
  "newEntry clk item = \<lparr>entry_id = date_now clk, timestamp = date_iso clk, entry_item = item\<rparr>"

text \<open>\<open>addToPrintHistory\<close> reads settings and history from storage, puts the new entry in
  front, trims, and writes the list back. An error is thrown on to the caller; the
  storage is then as before.\<close>

definition addToPrintHistory ::
  "clock \<Rightarrow> history_item \<Rightarrow> storage \<Rightarrow> ((string + history_entry) \<times> storage) option" where
  "addToPrintHistory clk item st =
     (case loadSettings st of
        Inl e \<Rightarrow> Some (Inl e, st)
      | Inr s \<Rightarrow>
          (case loadPrintHistory st of
             Inl e \<Rightarrow> Some (Inl e, st)
           | Inr history \<Rightarrow>
               (case trimHistory (maxHistoryItems s) (newEntry clk item # history) of
                  None \<Rightarrow> None
                | Some trimmed \<Rightarrow>
                    (case getStorageAPI st of
                       Inl e \<Rightarrow> Some (Inl e, st)
                     | Inr u \<Rightarrow>
                         (case set_fault st of
                            Some e \<Rightarrow> Some (Inl e, st)
                          | None \<Rightarrow>
                              Some (Inr (newEntry clk item),
                                    st\<lparr>history_slot := Some trimmed\<rparr>))))))"

text \<open>A sequence of appends, one after the other, each with its own clock reading.\<close>

fun appendAll :: "(clock \<times> history_item) list \<Rightarrow> storage \<Rightarrow> storage option" where
  "appendAll [] st = Some st"
| "appendAll (x # xs) st =
     (case addToPrintHistory (fst x) (snd x) st of
        None \<Rightarrow> None
      | Some (r, st') \<Rightarrow> appendAll xs st')"

section \<open>The print orchestrator (the service worker, in scripts/create-png-icons.js)\<close>

record notification =
  note_kind :: string
  note_title :: string
  note_message :: string

record delta =
  delta_id :: nat
  state_current :: "string option"

text \<open>
  What the browser answers during one run of the workflow: the download search by id, the
  creation of a tab for a URL (its id, or the message of the rejection), the script
  injection that calls \<open>window.print()\<close> (\<open>Some\<close> message when it rejects), whether
  \<open>chrome.notifications.create\<close> throws, and the clock. The waits (tab load with its
  three-second fallback, the settle delay, the delay before the tab is closed) change
  nothing that is observed here, so they are not steps of the model.
\<close>

record env =
  downloads_search :: "nat \<Rightarrow> string + download_item list"
  tabs_create :: "string \<Rightarrow> string + nat"
  execute_script :: "nat \<Rightarrow> string option"
  notifications_create_throws :: bool
  clock_reading :: clock

text \<open>The service worker's state and everything it has done to the browser: the
  settings cache (\<open>null\<close> at start), the storage, the notifications created, the tabs
  opened, the tabs on which printing was triggered, the tabs scheduled for closing, the
  badge and the number of registered settings listeners.\<close>

record world =
  currentSettings :: "settings option"
  isInitialized :: bool
  store :: storage
  notifications :: "notification list"
  tabs_opened :: "(nat \<times> string) list"
  printed_tabs :: "nat list"
  tabs_to_close :: "nat list"
  badge :: "string \<times> string"
  change_listeners :: nat

definition updateBadge :: "world \<Rightarrow> world" where
  "updateBadge w =
     (let on = (case currentSettings w of None \<Rightarrow> False | Some s \<Rightarrow> enabled s)
      in w\<lparr>badge := (if on then ''ON'' else [], if on then ''#22c55e'' else ''#6b7280'')\<rparr>)"

text \<open>The callback registered with \<open>onSettingsChange\<close>: the new value is validated
  before it reaches the cache.\<close>

definition settingsChanged :: "jsval \<Rightarrow> world \<Rightarrow> world" where
  "settingsChanged newValue w = updateBadge (w\<lparr>currentSettings := Some (validateSettings newValue)\<rparr>)"

definition initialize :: "world \<Rightarrow> world" where
  "initialize w =
     (if isInitialized w then w
      else (case loadSettings (store w) of
              Inl e \<Rightarrow> w
            | Inr s \<Rightarrow>
                (updateBadge
                   (w\<lparr>currentSettings := Some s,
                      change_listeners := Suc (change_listeners w)\<rparr>))\<lparr>isInitialized := True\<rparr>))"

definition showNotification :: "env \<Rightarrow> string \<Rightarrow> string \<Rightarrow> string \<Rightarrow> world \<Rightarrow> world" where
  "showNotification ev ttl msg ty w =
     (if \<not> (case currentSettings w of None \<Rightarrow> False | Some s \<Rightarrow> showNotifications s) then w
      else if notifications_create_throws ev then w
      else w\<lparr>notifications := notifications w @
               [\<lparr>note_kind = (if ty = ''success'' then ''autoprint_success'' else ''autoprint_error''),
                 note_title = ttl, note_message = msg\<rparr>]\<rparr>)"

text \<open>The outer \<open>catch\<close> of \<open>printFile\<close>: an error entry is added to the history (a
  failure of that is swallowed), the failure is notified, and the result is \<open>false\<close>.\<close>

definition printFailed :: "env \<Rightarrow> download_item \<Rightarrow> string \<Rightarrow> world \<Rightarrow> (bool \<times> world) option" where
  "printFailed ev downloadItem msg w =
     (case addToPrintHistory (clock_reading ev)
             \<lparr>filename = getFilename downloadItem, fullPath = dl_filename downloadItem,
              status = ''error'', fileSize = None, error = Some msg\<rparr> (store w) of
        None \<Rightarrow> None
      | Some (r, st) \<Rightarrow>
          Some (False,
                showNotification ev ''AutoPrint: Print Failed''
                  (''Failed to print '' @ quoted (getFilename downloadItem) @ '': '' @ msg)
                  ''error'' (w\<lparr>store := st\<rparr>)))"

text \<open>\<open>printFile\<close>: the file is opened in a tab and printing is triggered on it by a
  script injection, which has a \<open>catch\<close> of its own: when the injection throws, only the
  notification that the file is ready is shown and the result is \<open>true\<close>. After a
  triggered print the entry with status \<open>printed\<close> is added, the success is notified and
  the tab is scheduled for closing. Every other error goes to the outer \<open>catch\<close>.\<close>

definition printFile :: "env \<Rightarrow> download_item \<Rightarrow> world \<Rightarrow> (bool \<times> world) option" where
  "printFile ev downloadItem w =
     (let name = getFilename downloadItem;
          fileUrl = ''file://'' @ dl_filename downloadItem
      in case tabs_create ev fileUrl of
           Inl msg \<Rightarrow> printFailed ev downloadItem msg w
         | Inr tab \<Rightarrow>
             (let w1 = w\<lparr>tabs_opened := tabs_opened w @ [(tab, fileUrl)]\<rparr>
              in case execute_script ev tab of
                   Some scriptError \<Rightarrow>
                     Some (True,
                           showNotification ev ''AutoPrint: File Ready''
                             (quoted name @ '' opened for printing. Press Ctrl+P to print.'')
                             ''success'' w1)
                 | None \<Rightarrow>
                     (let w2 = w1\<lparr>printed_tabs := printed_tabs w1 @ [tab]\<rparr>
                      in case addToPrintHistory (clock_reading ev)
                                \<lparr>filename = name, fullPath = dl_filename downloadItem,
                                 status = ''printed'', fileSize = dl_fileSize downloadItem,
                                 error = None\<rparr> (store w2) of
                           None \<Rightarrow> None
                         | Some (Inl msg, st) \<Rightarrow> printFailed ev downloadItem msg (w2\<lparr>store := st\<rparr>)
                         | Some (Inr entry, st) \<Rightarrow>
                             (let w3 = showNotification ev ''AutoPrint: File Sent to Printer''
                                         (quoted name @ '' has been sent to the printer.'')
                                         ''success'' (w2\<lparr>store := st\<rparr>)
                              in Some (True, w3\<lparr>tabs_to_close := tabs_to_close w3 @ [tab]\<rparr>)))))"

text \<open>The listener for download changes. Only a change into the state \<open>complete\<close> is
  looked at; the worker is initialised when it is not yet; a disabled extension, a
  download that the search does not find, a search that throws and a file that the
  filters reject all end the run without a print.\<close>

definition handleDownloadChanged :: "env \<Rightarrow> delta \<Rightarrow> world \<Rightarrow> world option" where
  "handleDownloadChanged ev d w =
     (if state_current d \<noteq> Some ''complete'' then Some w
      else (let w1 = (if \<not> isInitialized w then initialize w else w)
            in if \<not> (case currentSettings w1 of None \<Rightarrow> False | Some s \<Rightarrow> enabled s)
               then Some w1
               else (case downloads_search ev (delta_id d) of
                       Inl e \<Rightarrow> Some w1
                     | Inr [] \<Rightarrow> Some w1
                     | Inr (downloadItem # others) \<Rightarrow>
                         (if \<not> matches (checkFilters (currentSettings w1) (getFilename downloadItem))
                          then Some w1
                          else map_option snd (printFile ev downloadItem w1)))))"

section \<open>Facts about the string functions\<close>

lemma split_not_Nil: "split sep s \<noteq> []"
  by (induction s) (auto split: list.splits)

lemma length_split_gt1: "(length (split sep s) > 1) = (\<exists>c\<in>set s. sep c)"
proof (induction s)
  case Nil
  show ?case by simp
next
  case (Cons c cs)
  show ?case
  proof (cases "sep c")
    case True
    then show ?thesis using split_not_Nil [of sep cs] by (cases "split sep cs") auto
  next
    case False
    then show ?thesis using Cons split_not_Nil [of sep cs] by (cases "split sep cs") auto
  qed
qed

lemma takeWhile_snoc:
  "takeWhile P (xs @ [c]) =
     (if \<forall>x\<in>set xs. P x then xs @ (if P c then [c] else []) else takeWhile P xs)"
  by (induction xs) auto

lemma last_split: "last (split sep s) = rev (takeWhile (\<lambda>c. \<not> sep c) (rev s))"
proof (induction s)
  case Nil
  show ?case by simp
next
  case (Cons c cs)
  obtain w ws where sp: "split sep cs = w # ws"
    using split_not_Nil [of sep cs] by (cases "split sep cs") auto
  have ws: "(ws \<noteq> []) = (\<exists>d\<in>set cs. sep d)"
    using length_split_gt1 [of sep cs] sp by auto
  have all: "(\<forall>d\<in>set cs. \<not> sep d) \<Longrightarrow> takeWhile (\<lambda>c. \<not> sep c) (rev cs) = rev cs"
    by (simp add: takeWhile_eq_all_conv)
  show ?case
  proof (cases "\<exists>d\<in>set cs. sep d")
    case True
    then have "ws \<noteq> []" using ws by simp
    then show ?thesis using Cons sp True by (auto simp: takeWhile_snoc)
  next
    case False
    then have "ws = []" using ws by simp
    moreover have "takeWhile (\<lambda>c. \<not> sep c) (rev cs) = rev cs"
      using False by (intro all) simp
    then have "rev (takeWhile (\<lambda>c. \<not> sep c) (rev cs)) = cs" by (simp only: rev_rev_ident)
    then have "w = cs" using Cons sp calculation by simp
    moreover note this
    ultimately show ?thesis using sp False by (auto simp: takeWhile_snoc)
  qed
qed

lemma getFileExtension_spec: "getFileExtension f = toLowerCase (substringAfterLastDot f)"
  using length_split_gt1 [of "\<lambda>c. c = CHR ''.''" f] last_split [of "\<lambda>c. c = CHR ''.''" f]
  by (auto simp: getFileExtension_def substringAfterLastDot_def Let_def toLowerCase_def)

lemma startsWith_iff: "startsWith s p = (\<exists>r. s = p @ r)"
  by (induction s p rule: startsWith.induct) auto

lemma all_dropWhile: "(\<forall>x\<in>set (dropWhile P s). P x) = (\<forall>x\<in>set s. P x)"
  by (induction s) auto

lemma trim_eq_Nil: "(trim s = []) = (\<forall>c\<in>set s. isWhiteSpace c)"
  by (simp add: trim_def dropWhile_eq_Nil_conv all_dropWhile)

lemma trim_last: "trim s \<noteq> [] \<Longrightarrow> \<not> isWhiteSpace (last (trim s))"
  unfolding trim_def by (simp add: last_rev hd_dropWhile)

lemma trim_trim_not_Nil: "trim s \<noteq> [] \<Longrightarrow> trim (trim s) \<noteq> []"
  using trim_last [of s] last_in_set [of "trim s"] by (auto simp: trim_eq_Nil [of "trim s"])

lemma stripLeadingDot_last: "stripLeadingDot s \<noteq> [] \<Longrightarrow> last (stripLeadingDot s) = last s"
  by (cases s) auto

lemma lowerChar_space: "isWhiteSpace (lowerChar c) = isWhiteSpace c"
  by (simp add: lowerChar_def isWhiteSpace_def)

lemma lowerChar_idem: "lowerChar (lowerChar c) = lowerChar c"
  by (simp add: lowerChar_def)

lemma lowerChar_dot: "(lowerChar c = CHR ''.'') = (c = CHR ''.'')"
  by (simp add: lowerChar_def)

lemma toLowerCase_idem: "toLowerCase (toLowerCase s) = toLowerCase s"
  by (simp add: toLowerCase_def lowerChar_idem)

lemma stripLeadingDot_toLowerCase: "stripLeadingDot (toLowerCase s) = toLowerCase (stripLeadingDot s)"
  by (cases s) (auto simp: toLowerCase_def lowerChar_dot)

lemma normalized_ext_active:
  assumes "e = stripLeadingDot (toLowerCase (trim s))" "e \<noteq> []"
  shows "trim e \<noteq> []"
proof -
  have t: "trim s \<noteq> []" using assms by (auto simp: toLowerCase_def)
  have "last e = last (toLowerCase (trim s))" using assms stripLeadingDot_last by simp
  also have "\<dots> = lowerChar (last (trim s))" using t by (simp add: toLowerCase_def last_map)
  finally have "\<not> isWhiteSpace (last e)" using trim_last [OF t] by (simp add: lowerChar_space)
  then show ?thesis using assms(2) last_in_set [of e] by (auto simp: trim_eq_Nil)
qed

section \<open>The verdict of the filter engine\<close>

text \<open>The verdict fields in terms of the two filters, for any settings record: a filter
  takes part when its text is not empty and not white space only.\<close>

lemma checkFilters_Some_matches:
  "matches (checkFilters (Some s) f) =
     ((prefixFilter s \<noteq> [] \<and> trim (prefixFilter s) \<noteq> [] \<longrightarrow>
         startsWith (toLowerCase f) (toLowerCase (prefixFilter s))) \<and>
      (extensionFilter s \<noteq> [] \<and> trim (extensionFilter s) \<noteq> [] \<longrightarrow>
         getFileExtension f = stripLeadingDot (toLowerCase (extensionFilter s))))"
  by (simp add: checkFilters_def Let_def)

lemma checkFilters_Some_prefixMatch:
  "prefixMatch (checkFilters (Some s) f) =
     (prefixFilter s \<noteq> [] \<and> trim (prefixFilter s) \<noteq> [] \<longrightarrow>
         startsWith (toLowerCase f) (toLowerCase (prefixFilter s)))"
  by (simp add: checkFilters_def Let_def)

lemma checkFilters_Some_extensionMatch:
  "extensionMatch (checkFilters (Some s) f) =
     (extensionFilter s \<noteq> [] \<and> trim (extensionFilter s) \<noteq> [] \<longrightarrow>
         getFileExtension f = stripLeadingDot (toLowerCase (extensionFilter s)))"
  by (simp add: checkFilters_def Let_def)

lemma trim_Nil: "trim [] = []"
  by (simp add: trim_def)

lemma checkFilters_example_evaluation:
  "trim ''invoice_'' = ''invoice_''" "trim ''pdf'' = ''pdf''" "trim ''.PDF'' = ''.PDF''"
  "trim ''inv_'' = ''inv_''" "trim '' '' = []" "trim ''.'' = ''.''"
  by (simp_all add: trim_def isWhiteSpace_def)

text \<open>
  The cache holds only what \<open>validateSettings\<close> returns (through \<open>loadSettings\<close> and the
  change listener). In such a record a filter that is not empty is never white space
  only, so there a filter is applied exactly when it is not empty.
\<close>

lemma validated_prefix_active:
  "prefixFilter (validateSettings raw) \<noteq> [] \<Longrightarrow> trim (prefixFilter (validateSettings raw)) \<noteq> []"
  by (auto simp: validateSettings_def getDefaultSettings_def trim_trim_not_Nil split: jsval.splits)

lemma validated_extension_active:
  "extensionFilter (validateSettings raw) \<noteq> [] \<Longrightarrow>
     trim (extensionFilter (validateSettings raw)) \<noteq> []"
proof (cases "getProp raw ''extensionFilter''")
  case (JStr x)
  assume "extensionFilter (validateSettings raw) \<noteq> []"
  then show ?thesis
    using JStr normalized_ext_active [OF refl, of x] by (simp add: validateSettings_def)
qed (simp_all add: validateSettings_def getDefaultSettings_def)

lemma validate_prefix_example:
  "validateSettings (JObj [(''prefixFilter'', JStr ''invoice_'')]) =
     \<lparr>enabled = False, prefixFilter = ''invoice_'', extensionFilter = [],
      showNotifications = True, maxHistoryItems = Finite 100\<rparr>"
  by (simp add: validateSettings_def getDefaultSettings_def trim_def isWhiteSpace_def)

lemma validate_both_example:
  "validateSettings (JObj [(''prefixFilter'', JStr ''inv_''), (''extensionFilter'', JStr ''pdf'')]) =
     \<lparr>enabled = False, prefixFilter = ''inv_'', extensionFilter = ''pdf'',
      showNotifications = True, maxHistoryItems = Finite 100\<rparr>"
  by (simp add: validateSettings_def getDefaultSettings_def trim_def isWhiteSpace_def
        toLowerCase_def lowerChar_def)

text \<open>
  Claim C9. While the cached settings are \<open>null\<close> (not loaded yet), \<open>checkFilters\<close>
  answers \<open>matches = false\<close> with the one detail \<open>Settings not loaded\<close>, for every
  file name: it does not fall back to the match-all verdict of a record without filters.
\<close>

theorem checkFilters_settings_not_loaded: "checkFilters None f =
   \<lparr>matches = False, prefixMatch = True, extensionMatch = True, details = [''Settings not loaded'']\<rparr>"
  by (simp add: checkFilters_def)

theorem checkFilters_settings_not_loaded_witness: "checkFilters None ''invoice.pdf'' =
   \<lparr>matches = False, prefixMatch = True, extensionMatch = True, details = [''Settings not loaded'']\<rparr>"
  by (rule checkFilters_settings_not_loaded)

text \<open>
  Claim C4. For every file name and every settings record the cache can hold (a result
  of \<open>validateSettings\<close>) whose prefix filter is not empty and whose extension filter is
  empty, \<open>matches\<close> is true exactly when the lower-cased file name starts with the
  lower-cased prefix filter.
\<close>

theorem checkFilters_prefix_only:
  assumes "s = validateSettings raw" "prefixFilter s \<noteq> []" "extensionFilter s = []"
  shows "matches (checkFilters (Some s) f) =
           (\<exists>rest. toLowerCase f = toLowerCase (prefixFilter s) @ rest)"
  using assms validated_prefix_active [of raw]
  by (simp add: checkFilters_Some_matches startsWith_iff)

theorem checkFilters_prefix_only_witness:
  "prefixFilter (validateSettings (JObj [(''prefixFilter'', JStr ''invoice_'')])) \<noteq> []
   \<and> extensionFilter (validateSettings (JObj [(''prefixFilter'', JStr ''invoice_'')])) = []
   \<and> matches (checkFilters (Some (validateSettings (JObj [(''prefixFilter'', JStr ''invoice_'')])))
        ''Invoice_2024.pdf'')
   \<and> \<not> matches (checkFilters (Some (validateSettings (JObj [(''prefixFilter'', JStr ''invoice_'')])))
        ''report.pdf'')"
proof -
  let ?s = "validateSettings (JObj [(''prefixFilter'', JStr ''invoice_'')])"
  have p: "prefixFilter ?s \<noteq> []" and e: "extensionFilter ?s = []"
    by (simp_all add: validate_prefix_example)
  have "toLowerCase ''Invoice_2024.pdf'' = toLowerCase (prefixFilter ?s) @ ''2024.pdf''"
    by (simp add: validate_prefix_example toLowerCase_def lowerChar_def)
  then have y: "matches (checkFilters (Some ?s) ''Invoice_2024.pdf'')"
    using checkFilters_prefix_only [OF refl p e, of "''Invoice_2024.pdf''"] by blast
  have "\<not> (\<exists>rest. toLowerCase ''report.pdf'' = toLowerCase (prefixFilter ?s) @ rest)"
    by (simp add: validate_prefix_example toLowerCase_def lowerChar_def)
  then have n: "\<not> matches (checkFilters (Some ?s) ''report.pdf'')"
    using checkFilters_prefix_only [OF refl p e, of "''report.pdf''"] by blast
  show ?thesis using p e y n by blast
qed

text \<open>
  Claim C3, as amended. For every file name and every settings record whose extension
  filter is not empty once white space is trimmed from it, and whose prefix filter is
  empty, \<open>matches\<close> is true exactly when the substring of the name after its last dot
  (empty without a dot), lower-cased, equals the extension filter without its leading
  dot, lower-cased. A name without a dot has \<open>extensionMatch = false\<close> whenever what is
  left of such an extension filter without its leading dot is not empty.
\<close>

theorem checkFilters_extension_only:
  assumes "trim (extensionFilter s) \<noteq> []" "prefixFilter s = []"
  shows "(matches (checkFilters (Some s) f) =
            (toLowerCase (substringAfterLastDot f) = toLowerCase (stripLeadingDot (extensionFilter s))))
         \<and> (CHR ''.'' \<notin> set f \<and> stripLeadingDot (extensionFilter s) \<noteq> []
              \<longrightarrow> \<not> extensionMatch (checkFilters (Some s) f))"
proof -
  have ne: "extensionFilter s \<noteq> []" using assms(1) trim_Nil by auto
  have m: "matches (checkFilters (Some s) f) =
             (getFileExtension f = stripLeadingDot (toLowerCase (extensionFilter s)))"
    using assms ne by (simp add: checkFilters_Some_matches)
  have e: "extensionMatch (checkFilters (Some s) f) =
             (getFileExtension f = stripLeadingDot (toLowerCase (extensionFilter s)))"
    using assms ne by (simp add: checkFilters_Some_extensionMatch)
  have nodot: "CHR ''.'' \<notin> set f \<Longrightarrow> getFileExtension f = []"
    by (simp add: getFileExtension_spec substringAfterLastDot_def toLowerCase_def)
  have "stripLeadingDot (extensionFilter s) \<noteq> [] \<Longrightarrow>
          stripLeadingDot (toLowerCase (extensionFilter s)) \<noteq> []"
    by (simp add: stripLeadingDot_toLowerCase) (simp add: toLowerCase_def)
  then show ?thesis
    using m e nodot by (auto simp: getFileExtension_spec stripLeadingDot_toLowerCase)
qed

theorem checkFilters_extension_only_witness:
  "trim (extensionFilter (\<lparr>enabled = True, prefixFilter = [], extensionFilter = ''.PDF'', showNotifications = True, maxHistoryItems = Finite 100\<rparr>)) \<noteq> []
   \<and> prefixFilter (\<lparr>enabled = True, prefixFilter = [], extensionFilter = ''.PDF'', showNotifications = True, maxHistoryItems = Finite 100\<rparr>) = []
   \<and> matches (checkFilters (Some (\<lparr>enabled = True, prefixFilter = [], extensionFilter = ''.PDF'', showNotifications = True, maxHistoryItems = Finite 100\<rparr>)) ''REPORT.PDF'')
   \<and> CHR ''.'' \<notin> set ''README''
   \<and> stripLeadingDot (extensionFilter (\<lparr>enabled = True, prefixFilter = [], extensionFilter = ''.PDF'', showNotifications = True, maxHistoryItems = Finite 100\<rparr>)) \<noteq> []
   \<and> \<not> extensionMatch (checkFilters (Some (\<lparr>enabled = True, prefixFilter = [], extensionFilter = ''.PDF'', showNotifications = True, maxHistoryItems = Finite 100\<rparr>)) ''README'')"
proof -
  let ?s = "\<lparr>enabled = True, prefixFilter = [], extensionFilter = ''.PDF'', showNotifications = True, maxHistoryItems = Finite 100\<rparr>"
  have e: "trim (extensionFilter ?s) \<noteq> []" by (simp add: checkFilters_example_evaluation)
  have p: "prefixFilter ?s = []" by simp
  have d: "CHR ''.'' \<notin> set ''README''" by simp
  have n: "stripLeadingDot (extensionFilter ?s) \<noteq> []" by simp
  have "toLowerCase (substringAfterLastDot ''REPORT.PDF'') = toLowerCase (stripLeadingDot (extensionFilter ?s))"
    by (simp add: substringAfterLastDot_def toLowerCase_def lowerChar_def)
  then have "matches (checkFilters (Some ?s) ''REPORT.PDF'')"
    using checkFilters_extension_only [OF e p, of "''REPORT.PDF''"] by blast
  moreover have "\<not> extensionMatch (checkFilters (Some ?s) ''README'')"
    using checkFilters_extension_only [OF e p, of "''README''"] d n by blast
  ultimately show ?thesis using e p d n by blast
qed

text \<open>
  Claim C3 as stated fails in two places. An extension filter that is not empty but
  white space only is skipped, so under the filter of one space \<open>a.pdf\<close> matches although
  its extension is not a space. And the filter \<open>.\<close> (what \<open>validateSettings\<close> returns for
  the stored text \<open>..\<close>) is applied and compares the extension of the file with the
  empty string that is left once the dot is removed: the name \<open>README\<close> has no dot and
  gets \<open>extensionMatch = true\<close>.
\<close>

theorem checkFilters_extension_counterexample:
  "extensionFilter (\<lparr>enabled = True, prefixFilter = [], extensionFilter = '' '', showNotifications = True, maxHistoryItems = Finite 100\<rparr>) \<noteq> []
   \<and> toLowerCase (substringAfterLastDot ''a.pdf'') \<noteq>
         toLowerCase (stripLeadingDot (extensionFilter (\<lparr>enabled = True, prefixFilter = [], extensionFilter = '' '', showNotifications = True, maxHistoryItems = Finite 100\<rparr>)))
   \<and> matches (checkFilters (Some (\<lparr>enabled = True, prefixFilter = [], extensionFilter = '' '', showNotifications = True, maxHistoryItems = Finite 100\<rparr>)) ''a.pdf'')
   \<and> extensionFilter (validateSettings (JObj [(''extensionFilter'', JStr ''..'')])) = ''.''
   \<and> prefixFilter (validateSettings (JObj [(''extensionFilter'', JStr ''..'')])) = []
   \<and> CHR ''.'' \<notin> set ''README''
   \<and> extensionMatch (checkFilters (Some (validateSettings (JObj [(''extensionFilter'', JStr ''..'')]))) ''README'')"
proof -
  have v: "validateSettings (JObj [(''extensionFilter'', JStr ''..'')]) =
     \<lparr>enabled = False, prefixFilter = [], extensionFilter = ''.'',
      showNotifications = True, maxHistoryItems = Finite 100\<rparr>"
    by (simp add: validateSettings_def getDefaultSettings_def trim_def isWhiteSpace_def
          toLowerCase_def lowerChar_def)
  have a: "toLowerCase (substringAfterLastDot ''a.pdf'') \<noteq>
         toLowerCase (stripLeadingDot (extensionFilter (\<lparr>enabled = True, prefixFilter = [], extensionFilter = '' '', showNotifications = True, maxHistoryItems = Finite 100\<rparr>)))"
    by (simp add: substringAfterLastDot_def toLowerCase_def lowerChar_def)
  have b: "matches (checkFilters (Some (\<lparr>enabled = True, prefixFilter = [], extensionFilter = '' '', showNotifications = True, maxHistoryItems = Finite 100\<rparr>)) ''a.pdf'')"
    by (simp add: checkFilters_Some_matches checkFilters_example_evaluation)
  have c: "extensionMatch (checkFilters (Some (validateSettings (JObj [(''extensionFilter'', JStr ''..'')]))) ''README'')"
    unfolding v
    by (simp add: checkFilters_Some_extensionMatch checkFilters_example_evaluation
          getFileExtension_def toLowerCase_def lowerChar_def)
  show ?thesis using a b c by (simp add: v)
qed

text \<open>
  Claim C5. When both filters are empty the verdict has \<open>matches = true\<close>, for every file
  name. In general \<open>matches\<close> is the conjunction of the two recorded sub-results
  \<open>prefixMatch\<close> and \<open>extensionMatch\<close>, and for every settings record the cache can hold
  (a result of \<open>validateSettings\<close>) the sub-result of a filter is true when the filter is
  empty and is the result of its comparison when the filter is not empty.
\<close>

theorem checkFilters_conjunction:
  "(prefixFilter s = [] \<and> extensionFilter s = [] \<longrightarrow> matches (checkFilters (Some s) f))
   \<and> matches (checkFilters (Some s) f) =
       (prefixMatch (checkFilters (Some s) f) \<and> extensionMatch (checkFilters (Some s) f))
   \<and> (\<forall>raw. s = validateSettings raw \<longrightarrow>
         prefixMatch (checkFilters (Some s) f) =
           (prefixFilter s \<noteq> [] \<longrightarrow> (\<exists>rest. toLowerCase f = toLowerCase (prefixFilter s) @ rest))
         \<and> extensionMatch (checkFilters (Some s) f) =
           (extensionFilter s \<noteq> [] \<longrightarrow>
              toLowerCase (substringAfterLastDot f) = toLowerCase (stripLeadingDot (extensionFilter s)))
         \<and> matches (checkFilters (Some s) f) =
           ((prefixFilter s \<noteq> [] \<longrightarrow> (\<exists>rest. toLowerCase f = toLowerCase (prefixFilter s) @ rest))
            \<and> (extensionFilter s \<noteq> [] \<longrightarrow>
              toLowerCase (substringAfterLastDot f) = toLowerCase (stripLeadingDot (extensionFilter s)))))"
proof -
  have a: "prefixFilter s = [] \<and> extensionFilter s = [] \<longrightarrow> matches (checkFilters (Some s) f)"
    by (simp add: checkFilters_Some_matches)
  have b: "matches (checkFilters (Some s) f) =
       (prefixMatch (checkFilters (Some s) f) \<and> extensionMatch (checkFilters (Some s) f))"
    by (simp only: checkFilters_Some_matches checkFilters_Some_prefixMatch
          checkFilters_Some_extensionMatch)
  have c: "prefixMatch (checkFilters (Some s) f) =
           (prefixFilter s \<noteq> [] \<longrightarrow> (\<exists>rest. toLowerCase f = toLowerCase (prefixFilter s) @ rest))"
    if "s = validateSettings raw" for raw
    using that validated_prefix_active [of raw]
    by (auto simp: checkFilters_Some_prefixMatch startsWith_iff)
  have d: "extensionMatch (checkFilters (Some s) f) =
           (extensionFilter s \<noteq> [] \<longrightarrow>
              toLowerCase (substringAfterLastDot f) = toLowerCase (stripLeadingDot (extensionFilter s)))"
    if "s = validateSettings raw" for raw
    using that validated_extension_active [of raw]
    by (auto simp: checkFilters_Some_extensionMatch getFileExtension_spec stripLeadingDot_toLowerCase)
  show ?thesis using a b c d by blast
qed

theorem checkFilters_conjunction_witness:
  "prefixFilter (validateSettings (JObj [])) = [] \<and> extensionFilter (validateSettings (JObj [])) = []
   \<and> matches (checkFilters (Some (validateSettings (JObj []))) ''random.txt'')
   \<and> extensionFilter (validateSettings
        (JObj [(''prefixFilter'', JStr ''inv_''), (''extensionFilter'', JStr ''pdf'')])) \<noteq> []
   \<and> \<not> matches (checkFilters (Some (validateSettings
        (JObj [(''prefixFilter'', JStr ''inv_''), (''extensionFilter'', JStr ''pdf'')]))) ''inv_2024.docx'')
   \<and> matches (checkFilters (Some (validateSettings
        (JObj [(''prefixFilter'', JStr ''inv_''), (''extensionFilter'', JStr ''pdf'')]))) ''INV_2024.PDF'')"
proof -
  let ?d = "validateSettings (JObj [])"
  let ?s = "validateSettings (JObj [(''prefixFilter'', JStr ''inv_''), (''extensionFilter'', JStr ''pdf'')])"
  have e: "prefixFilter ?d = [] \<and> extensionFilter ?d = []"
    by (simp add: validateSettings_def getDefaultSettings_def)
  then have m: "matches (checkFilters (Some ?d) ''random.txt'')"
    using checkFilters_conjunction [of ?d "''random.txt''"] by blast
  have n: "extensionFilter ?s \<noteq> []" by (simp add: validate_both_example)
  have "toLowerCase (substringAfterLastDot ''inv_2024.docx'') \<noteq> toLowerCase (stripLeadingDot (extensionFilter ?s))"
    by (simp add: validate_both_example substringAfterLastDot_def toLowerCase_def lowerChar_def)
  then have x: "\<not> matches (checkFilters (Some ?s) ''inv_2024.docx'')"
    using checkFilters_conjunction [of ?s "''inv_2024.docx''"] n by blast
  have "toLowerCase ''INV_2024.PDF'' = toLowerCase (prefixFilter ?s) @ ''2024.pdf''"
    by (simp add: validate_both_example toLowerCase_def lowerChar_def)
  moreover have "toLowerCase (substringAfterLastDot ''INV_2024.PDF'') = toLowerCase (stripLeadingDot (extensionFilter ?s))"
    by (simp add: validate_both_example substringAfterLastDot_def toLowerCase_def lowerChar_def)
  ultimately have y: "matches (checkFilters (Some ?s) ''INV_2024.PDF'')"
    using checkFilters_conjunction [of ?s "''INV_2024.PDF''"] by blast
  show ?thesis using e m n x y by blast
qed

text \<open>
  In every record that \<open>validateSettings\<close> returns, a filter that is not empty is still
  not empty once white space is trimmed from it.
\<close>

theorem validated_filters_not_blank:
  "(prefixFilter (validateSettings raw) \<noteq> [] \<longrightarrow> trim (prefixFilter (validateSettings raw)) \<noteq> [])
   \<and> (extensionFilter (validateSettings raw) \<noteq> [] \<longrightarrow>
        trim (extensionFilter (validateSettings raw)) \<noteq> [])"
  using validated_prefix_active [of raw] validated_extension_active [of raw] by blast

theorem validated_filters_not_blank_witness:
  "prefixFilter (validateSettings (JObj [(''prefixFilter'', JStr '' inv_ '')])) = ''inv_''
   \<and> trim (prefixFilter (validateSettings (JObj [(''prefixFilter'', JStr '' inv_ '')]))) \<noteq> []
   \<and> prefixFilter (validateSettings (JObj [(''prefixFilter'', JStr ''  '')])) = []"
proof -
  have a: "prefixFilter (validateSettings (JObj [(''prefixFilter'', JStr '' inv_ '')])) = ''inv_''"
    by (simp add: validateSettings_def trim_def isWhiteSpace_def)
  then have "trim (prefixFilter (validateSettings (JObj [(''prefixFilter'', JStr '' inv_ '')]))) \<noteq> []"
    using validated_filters_not_blank [of "JObj [(''prefixFilter'', JStr '' inv_ '')]"] by simp
  moreover have "prefixFilter (validateSettings (JObj [(''prefixFilter'', JStr ''  '')])) = []"
    by (simp add: validateSettings_def trim_def isWhiteSpace_def)
  ultimately show ?thesis using a by blast
qed

section \<open>Settings validation and the load operations\<close>

lemma loadSettings_total: "\<exists>s. loadSettings st = Inr s"
  by (simp add: loadSettings_def Let_def split: sum.splits option.splits)

lemma loadPrintHistory_total: "\<exists>h. loadPrintHistory st = Inr h"
  by (simp add: loadPrintHistory_def split: sum.splits option.splits)

lemma extensionFilter_lower:
  "toLowerCase (extensionFilter (validateSettings v)) = extensionFilter (validateSettings v)"
proof (cases "getProp v ''extensionFilter''")
  case (JStr x)
  then show ?thesis
    by (simp add: validateSettings_def stripLeadingDot_toLowerCase toLowerCase_idem)
qed (simp_all add: validateSettings_def getDefaultSettings_def toLowerCase_def)

lemma stripLeadingDot_no_dot:
  "\<not> startsWith s ''..'' \<Longrightarrow> \<not> startsWith (stripLeadingDot s) ''.''"
  by (cases s) auto

lemma startsWith_dots_lower: "startsWith (toLowerCase s) ''..'' = startsWith s ''..''"
proof (cases s)
  case Nil
  then show ?thesis by (simp add: toLowerCase_def)
next
  case (Cons a t)
  then show ?thesis by (cases t) (auto simp: toLowerCase_def lowerChar_dot)
qed

lemma validateSettings_empty: "validateSettings (JObj []) = getDefaultSettings"
  by (simp add: validateSettings_def)

text \<open>
  Claim C8, as amended. For every input value (also \<open>null\<close>, \<open>undefined\<close> and objects
  with missing or mistyped fields) \<open>validateSettings\<close> returns a record in which each
  field on its own is the default when the input has no value of the right type for it
  (\<open>enabled = false\<close>, \<open>prefixFilter = ""\<close>, \<open>extensionFilter = ""\<close>,
  \<open>showNotifications = true\<close>, \<open>maxHistoryItems = 100\<close>) and the input's value
  otherwise, the strings trimmed. The returned extension filter is always lower-case; it
  is the trimmed, lower-cased input without one leading dot, so it has no leading dot
  unless the trimmed input starts with two dots. Every read validates: when the storage
  answers, \<open>loadSettings\<close> returns \<open>validateSettings\<close> of the stored value, or of the
  empty object when nothing truthy is stored; so every result of \<open>loadSettings\<close> is a
  result of \<open>validateSettings\<close>.
\<close>

theorem validateSettings_field_defaults:
  "((\<forall>b. getProp v ''enabled'' \<noteq> JBool b) \<longrightarrow> enabled (validateSettings v) = False)
   \<and> ((\<forall>x. getProp v ''prefixFilter'' \<noteq> JStr x) \<longrightarrow> prefixFilter (validateSettings v) = [])
   \<and> ((\<forall>x. getProp v ''extensionFilter'' \<noteq> JStr x) \<longrightarrow> extensionFilter (validateSettings v) = [])
   \<and> ((\<forall>b. getProp v ''showNotifications'' \<noteq> JBool b) \<longrightarrow>
         showNotifications (validateSettings v) = True)
   \<and> ((\<forall>n. getProp v ''maxHistoryItems'' \<noteq> JNum n) \<longrightarrow>
         maxHistoryItems (validateSettings v) = Finite 100)
   \<and> (\<forall>b. getProp v ''enabled'' = JBool b \<longrightarrow> enabled (validateSettings v) = b)
   \<and> (\<forall>x. getProp v ''prefixFilter'' = JStr x \<longrightarrow> prefixFilter (validateSettings v) = trim x)
   \<and> (\<forall>x. getProp v ''extensionFilter'' = JStr x \<longrightarrow>
         extensionFilter (validateSettings v) = stripLeadingDot (toLowerCase (trim x)))
   \<and> (\<forall>b. getProp v ''showNotifications'' = JBool b \<longrightarrow> showNotifications (validateSettings v) = b)
   \<and> (\<forall>n. getProp v ''maxHistoryItems'' = JNum n \<longrightarrow> maxHistoryItems (validateSettings v) = n)
   \<and> toLowerCase (extensionFilter (validateSettings v)) = extensionFilter (validateSettings v)
   \<and> (\<forall>x. getProp v ''extensionFilter'' = JStr x \<and> \<not> startsWith (trim x) ''..'' \<longrightarrow>
         \<not> startsWith (extensionFilter (validateSettings v)) ''.'')
   \<and> (\<forall>st. api_present st \<and> get_fault st = None \<and> settings_slot st = Some v \<and> truthy v \<longrightarrow>
         loadSettings st = Inr (validateSettings v))
   \<and> (\<forall>st. api_present st \<and> get_fault st = None \<and> (\<forall>x. settings_slot st = Some x \<longrightarrow> \<not> truthy x) \<longrightarrow>
         loadSettings st = Inr (validateSettings (JObj [])))
   \<and> (\<forall>st. \<exists>raw. loadSettings st = Inr (validateSettings raw))"
proof -
  have d: "(\<forall>b. getProp v ''enabled'' \<noteq> JBool b) \<longrightarrow> enabled (validateSettings v) = False"
    "(\<forall>x. getProp v ''prefixFilter'' \<noteq> JStr x) \<longrightarrow> prefixFilter (validateSettings v) = []"
    "(\<forall>x. getProp v ''extensionFilter'' \<noteq> JStr x) \<longrightarrow> extensionFilter (validateSettings v) = []"
    "(\<forall>b. getProp v ''showNotifications'' \<noteq> JBool b) \<longrightarrow>
         showNotifications (validateSettings v) = True"
    "(\<forall>n. getProp v ''maxHistoryItems'' \<noteq> JNum n) \<longrightarrow>
         maxHistoryItems (validateSettings v) = Finite 100"
    by (auto simp: validateSettings_def getDefaultSettings_def split: jsval.splits)
  have k: "\<forall>b. getProp v ''enabled'' = JBool b \<longrightarrow> enabled (validateSettings v) = b"
    "\<forall>x. getProp v ''prefixFilter'' = JStr x \<longrightarrow> prefixFilter (validateSettings v) = trim x"
    "\<forall>x. getProp v ''extensionFilter'' = JStr x \<longrightarrow>
         extensionFilter (validateSettings v) = stripLeadingDot (toLowerCase (trim x))"
    "\<forall>b. getProp v ''showNotifications'' = JBool b \<longrightarrow> showNotifications (validateSettings v) = b"
    "\<forall>n. getProp v ''maxHistoryItems'' = JNum n \<longrightarrow> maxHistoryItems (validateSettings v) = n"
    by (simp_all add: validateSettings_def)
  have nd: "\<forall>x. getProp v ''extensionFilter'' = JStr x \<and> \<not> startsWith (trim x) ''..'' \<longrightarrow>
         \<not> startsWith (extensionFilter (validateSettings v)) ''.''"
  proof (intro allI impI)
    fix x assume x: "getProp v ''extensionFilter'' = JStr x \<and> \<not> startsWith (trim x) ''..''"
    then have "\<not> startsWith (toLowerCase (trim x)) ''..''"
      by (simp add: startsWith_dots_lower)
    then show "\<not> startsWith (extensionFilter (validateSettings v)) ''.''"
      using x k(3) stripLeadingDot_no_dot by simp
  qed
  have ld: "\<forall>st. \<exists>raw. loadSettings st = Inr (validateSettings raw)"
  proof
    fix st
    show "\<exists>raw. loadSettings st = Inr (validateSettings raw)"
      using validateSettings_empty [symmetric]
      by (auto simp: loadSettings_def getStorageAPI_def Let_def split: option.splits)
  qed
  have rd: "\<forall>st. api_present st \<and> get_fault st = None \<and> settings_slot st = Some v \<and> truthy v \<longrightarrow>
         loadSettings st = Inr (validateSettings v)"
    by (simp add: loadSettings_def getStorageAPI_def)
  have re: "\<forall>st. api_present st \<and> get_fault st = None \<and> (\<forall>x. settings_slot st = Some x \<longrightarrow> \<not> truthy x) \<longrightarrow>
         loadSettings st = Inr (validateSettings (JObj []))"
    by (auto simp: loadSettings_def getStorageAPI_def Let_def split: option.splits)
  show ?thesis by (intro conjI d k extensionFilter_lower nd rd re ld)
qed

theorem validateSettings_field_defaults_witness:
  "enabled (validateSettings (JObj [(''enabled'', JStr ''yes''), (''extensionFilter'', JStr '' .PDF ''), (''maxHistoryItems'', JNull)])) = False
   \<and> maxHistoryItems (validateSettings (JObj [(''enabled'', JStr ''yes''), (''extensionFilter'', JStr '' .PDF ''), (''maxHistoryItems'', JNull)])) = Finite 100
   \<and> showNotifications (validateSettings (JObj [(''enabled'', JStr ''yes''), (''extensionFilter'', JStr '' .PDF ''), (''maxHistoryItems'', JNull)])) = True
   \<and> extensionFilter (validateSettings (JObj [(''enabled'', JStr ''yes''), (''extensionFilter'', JStr '' .PDF ''), (''maxHistoryItems'', JNull)])) = ''pdf''
   \<and> \<not> startsWith (extensionFilter (validateSettings (JObj [(''enabled'', JStr ''yes''), (''extensionFilter'', JStr '' .PDF ''), (''maxHistoryItems'', JNull)]))) ''.''
   \<and> validateSettings JNull =
         \<lparr>enabled = False, prefixFilter = [], extensionFilter = [],
          showNotifications = True, maxHistoryItems = Finite 100\<rparr>
   \<and> loadSettings (\<lparr>api_present = True, get_fault = None, set_fault = None, settings_slot = Some (JObj [(''enabled'', JStr ''yes''), (''extensionFilter'', JStr '' .PDF ''), (''maxHistoryItems'', JNull)]), history_slot = None\<rparr>)
       = Inr (validateSettings (JObj [(''enabled'', JStr ''yes''), (''extensionFilter'', JStr '' .PDF ''), (''maxHistoryItems'', JNull)]))
   \<and> loadSettings (\<lparr>api_present = True, get_fault = None, set_fault = None, settings_slot = Some JNull, history_slot = None\<rparr>)
       = Inr (\<lparr>enabled = False, prefixFilter = [], extensionFilter = [], showNotifications = True, maxHistoryItems = Finite 100\<rparr>)"
proof -
  let ?v = "JObj [(''enabled'', JStr ''yes''), (''extensionFilter'', JStr '' .PDF ''), (''maxHistoryItems'', JNull)]"
  let ?st = "\<lparr>api_present = True, get_fault = None, set_fault = None, settings_slot = Some (JObj [(''enabled'', JStr ''yes''), (''extensionFilter'', JStr '' .PDF ''), (''maxHistoryItems'', JNull)]), history_slot = None\<rparr>"
  let ?sn = "\<lparr>api_present = True, get_fault = None, set_fault = None, settings_slot = Some JNull, history_slot = None\<rparr>"
  note c = validateSettings_field_defaults [of ?v]
  note c1 = c [THEN conjunct1]
  note c4 = c [THEN conjunct2, THEN conjunct2, THEN conjunct2, THEN conjunct1]
  note c5 = c [THEN conjunct2, THEN conjunct2, THEN conjunct2, THEN conjunct2, THEN conjunct1]
  note c8 = c [THEN conjunct2, THEN conjunct2, THEN conjunct2, THEN conjunct2, THEN conjunct2, THEN conjunct2, THEN conjunct2, THEN conjunct1]
  note c12 = c [THEN conjunct2, THEN conjunct2, THEN conjunct2, THEN conjunct2, THEN conjunct2, THEN conjunct2, THEN conjunct2, THEN conjunct2, THEN conjunct2, THEN conjunct2, THEN conjunct2, THEN conjunct1]
  note c13 = c [THEN conjunct2, THEN conjunct2, THEN conjunct2, THEN conjunct2, THEN conjunct2, THEN conjunct2, THEN conjunct2, THEN conjunct2, THEN conjunct2, THEN conjunct2, THEN conjunct2, THEN conjunct2, THEN conjunct1]
  note c14 = c [THEN conjunct2, THEN conjunct2, THEN conjunct2, THEN conjunct2, THEN conjunct2, THEN conjunct2, THEN conjunct2, THEN conjunct2, THEN conjunct2, THEN conjunct2, THEN conjunct2, THEN conjunct2, THEN conjunct2, THEN conjunct1]
  have e: "\<forall>b. getProp ?v ''enabled'' \<noteq> JBool b" by simp
  have m: "\<forall>n. getProp ?v ''maxHistoryItems'' \<noteq> JNum n" by simp
  have n: "\<forall>b. getProp ?v ''showNotifications'' \<noteq> JBool b" by simp
  have x: "getProp ?v ''extensionFilter'' = JStr '' .PDF ''" by simp
  have t: "trim '' .PDF '' = ''.PDF''" by (simp add: trim_def isWhiteSpace_def)
  have d: "\<not> startsWith (trim '' .PDF '') ''..''" by (simp add: t)
  have 1: "enabled (validateSettings ?v) = False" using c1 e by (rule mp)
  have 2: "maxHistoryItems (validateSettings ?v) = Finite 100" using c5 m by (rule mp)
  have 3: "showNotifications (validateSettings ?v) = True" using c4 n by (rule mp)
  have "extensionFilter (validateSettings ?v) = stripLeadingDot (toLowerCase (trim '' .PDF ''))"
    using c8 [rule_format, OF x] .
  then have 4: "extensionFilter (validateSettings ?v) = ''pdf''"
    by (simp add: t toLowerCase_def lowerChar_def)
  have 5: "\<not> startsWith (extensionFilter (validateSettings ?v)) ''.''"
    using c12 [rule_format, OF conjI, OF x d] .
  have 6: "validateSettings JNull =
         \<lparr>enabled = False, prefixFilter = [], extensionFilter = [],
          showNotifications = True, maxHistoryItems = Finite 100\<rparr>"
    by (simp add: validateSettings_def getDefaultSettings_def)
  have h7: "api_present ?st \<and> get_fault ?st = None \<and> settings_slot ?st = Some ?v \<and> truthy ?v"
    by simp
  have 7: "loadSettings ?st = Inr (validateSettings ?v)"
    using c13 [rule_format, OF h7] .
  have h8: "api_present ?sn \<and> get_fault ?sn = None \<and> (\<forall>x. settings_slot ?sn = Some x \<longrightarrow> \<not> truthy x)"
    by simp
  have "loadSettings ?sn = Inr (validateSettings (JObj []))"
    using c14 [rule_format, OF h8] .
  then have 8: "loadSettings ?sn = Inr (\<lparr>enabled = False, prefixFilter = [], extensionFilter = [], showNotifications = True, maxHistoryItems = Finite 100\<rparr>)"
    by (simp add: validateSettings_empty getDefaultSettings_def)
  show ?thesis by (intro conjI 1 2 3 4 5 6 7 8)
qed

text \<open>
  Claim C8 as stated fails where it says that the returned extension filter never has a
  leading dot: only one dot is removed, so the input \<open>..PDF\<close> is returned as \<open>.pdf\<close>.
\<close>

theorem validateSettings_double_dot_counterexample:
  "startsWith (extensionFilter (validateSettings (JObj [(''extensionFilter'', JStr ''..PDF'')]))) ''.''"
  by (simp add: validateSettings_def trim_def isWhiteSpace_def toLowerCase_def lowerChar_def)

text \<open>
  Claim C10. When the storage read throws (there is no storage API, or \<open>get\<close> rejects),
  \<open>loadSettings\<close> returns the complete default record and \<open>loadPrintHistory\<close> returns
  the empty list; and whatever the storage does, both return a value and never an error.
\<close>

theorem load_swallows_read_failure:
  "(\<not> api_present st \<or> get_fault st \<noteq> None \<longrightarrow>
       loadSettings st =
         Inr \<lparr>enabled = False, prefixFilter = [], extensionFilter = [],
              showNotifications = True, maxHistoryItems = Finite 100\<rparr>
       \<and> loadPrintHistory st = Inr [])
   \<and> (\<exists>s. loadSettings st = Inr s)
   \<and> (\<exists>h. loadPrintHistory st = Inr h)"
  by (auto simp: loadSettings_def loadPrintHistory_def getStorageAPI_def getDefaultSettings_def Let_def
      split: option.splits)

theorem load_swallows_read_failure_witness:
  "get_fault \<lparr>api_present = True, get_fault = Some ''storage unavailable'', set_fault = None,
       settings_slot = Some (JObj [(''enabled'', JBool True)]),
       history_slot = None\<rparr> \<noteq> None
   \<and> loadSettings \<lparr>api_present = True, get_fault = Some ''storage unavailable'', set_fault = None,
       settings_slot = Some (JObj [(''enabled'', JBool True)]),
       history_slot = None\<rparr> =
         Inr \<lparr>enabled = False, prefixFilter = [], extensionFilter = [],
              showNotifications = True, maxHistoryItems = Finite 100\<rparr>
   \<and> loadPrintHistory \<lparr>api_present = True, get_fault = Some ''storage unavailable'', set_fault = None,
       settings_slot = Some (JObj [(''enabled'', JBool True)]),
       history_slot = None\<rparr> = Inr []"
  using load_swallows_read_failure [of "\<lparr>api_present = True, get_fault = Some ''storage unavailable'', set_fault = None,
       settings_slot = Some (JObj [(''enabled'', JBool True)]),
       history_slot = None\<rparr>"]
  by simp

section \<open>The print history\<close>

text \<open>Under a cap that is a natural number the trimming loop ends and keeps the first
  \<open>C\<close> entries; under a negative cap it never ends.\<close>

lemma trimHistory_cap: "trimHistory (Finite (real C)) h = Some (take C h)"
proof (induction h rule: rev_induct)
  case Nil
  show ?case by (subst trimHistory.simps) simp
next
  case (snoc x xs)
  show ?case
  proof (cases "C < length (xs @ [x])")
    case True
    then show ?thesis using snoc by (subst trimHistory.simps) simp
  next
    case False
    then show ?thesis by (subst trimHistory.simps) simp
  qed
qed

lemma trimHistory_negative_aux:
  assumes "trimHistory cap h = Some y"
  shows "\<forall>r. cap = Finite r \<longrightarrow> \<not> r < 0"
proof (rule trimHistory.raw_induct [where P = "\<lambda>cap h y. \<forall>r. cap = Finite r \<longrightarrow> \<not> r < 0", OF _ assms])
  fix f cap h y
  assume IH: "\<And>c b z. f c b = Some z \<Longrightarrow> \<forall>r. c = Finite r \<longrightarrow> \<not> r < 0"
    and body: "(if lengthExceeds (length h) cap then f cap (butlast h) else Some h) = Some y"
  show "\<forall>r. cap = Finite r \<longrightarrow> \<not> r < 0"
  proof (intro allI impI notI)
    fix r assume r: "cap = Finite r" "r < 0"
    then have "lengthExceeds (length h) cap" by simp
    then have "f cap (butlast h) = Some y" using body by simp
    then show False using IH r by blast
  qed
qed

lemma trimHistory_negative: "r < 0 \<Longrightarrow> trimHistory (Finite r) h = None"
  using trimHistory_negative_aux [of "Finite r" h] by (cases "trimHistory (Finite r) h") auto

lemma take_Cons_take: "take n (xs @ take n ys) = take n (xs @ ys)"
  by (simp add: min_def)

lemma addToPrintHistory_healthy:
  assumes "api_present st" "get_fault st = None" "set_fault st = None"
    and "loadSettings st = Inr s" "maxHistoryItems s = Finite (real C)"
    and "loadPrintHistory st = Inr h"
  shows "addToPrintHistory clk item st =
           Some (Inr (newEntry clk item), st\<lparr>history_slot := Some (take C (newEntry clk item # h))\<rparr>)"
  using assms by (simp add: addToPrintHistory_def trimHistory_cap getStorageAPI_def)

lemma loadSettings_history_update:
  "loadSettings (st\<lparr>history_slot := x\<rparr>) = loadSettings st"
  by (simp add: loadSettings_def getStorageAPI_def Let_def split: option.splits)

lemma loadPrintHistory_history_update:
  "api_present st \<Longrightarrow> get_fault st = None \<Longrightarrow>
     loadPrintHistory (st\<lparr>history_slot := Some h\<rparr>) = Inr h"
  by (simp add: loadPrintHistory_def getStorageAPI_def)

lemma appendAll_healthy:
  assumes "api_present st" "get_fault st = None" "set_fault st = None"
    and "loadSettings st = Inr s" "maxHistoryItems s = Finite (real C)"
    and "loadPrintHistory st = Inr h" "length h \<le> C"
  shows "\<exists>st'. appendAll xs st = Some st'
           \<and> loadPrintHistory st' = Inr (take C (rev (map (\<lambda>x. newEntry (fst x) (snd x)) xs) @ h))
           \<and> loadSettings st' = Inr s"
  using assms
proof (induction xs arbitrary: st h)
  case Nil
  then show ?case by simp
next
  case (Cons x xs)
  let ?e = "newEntry (fst x) (snd x)"
  let ?st1 = "st\<lparr>history_slot := Some (take C (?e # h))\<rparr>"
  have step: "addToPrintHistory (fst x) (snd x) st = Some (Inr ?e, ?st1)"
    using Cons.prems by (intro addToPrintHistory_healthy) simp_all
  have "\<exists>st'. appendAll xs ?st1 = Some st'
           \<and> loadPrintHistory st' = Inr (take C (rev (map (\<lambda>x. newEntry (fst x) (snd x)) xs) @ take C (?e # h)))
           \<and> loadSettings st' = Inr s"
    using Cons.prems
    by (intro Cons.IH) (simp_all add: loadSettings_history_update loadPrintHistory_history_update)
  then show ?case using step by (simp add: take_Cons_take)
qed

text \<open>
  Claim C6. With a working storage, the cap \<open>maxHistoryItems = C\<close> (a natural number)
  fixed in the stored settings and the history empty at the start, any sequence of \<open>N\<close>
  appends succeeds, and listing the history afterwards gives exactly \<open>min N C\<close> entries:
  the most recently appended ones, newest first.
\<close>

theorem history_trimming:
  assumes "api_present st" "get_fault st = None" "set_fault st = None"
    and "loadSettings st = Inr s" "maxHistoryItems s = Finite (real C)"
    and "loadPrintHistory st = Inr []"
  shows "\<exists>st'. appendAll xs st = Some st'
           \<and> loadPrintHistory st' = Inr (take C (rev (map (\<lambda>x. newEntry (fst x) (snd x)) xs)))
           \<and> length (take C (rev (map (\<lambda>x. newEntry (fst x) (snd x)) xs))) = min (length xs) C
           \<and> loadSettings st' = Inr s"
  using appendAll_healthy [OF assms, of xs] by auto

theorem history_trimming_witness:
  "loadPrintHistory \<lparr>api_present = True, get_fault = None, set_fault = None,
       settings_slot = Some (JObj [(''maxHistoryItems'', JNum (Finite 1))]), history_slot = None\<rparr> = Inr []
   \<and> (\<exists>st'. appendAll
         [(\<lparr>date_now = 1, date_iso = ''t1''\<rparr>,
           \<lparr>filename = ''a.pdf'', fullPath = ''/d/a.pdf'', status = ''printed'',
            fileSize = Some 10, error = None\<rparr>),
          (\<lparr>date_now = 2, date_iso = ''t2''\<rparr>,
           \<lparr>filename = ''b.pdf'', fullPath = ''/d/b.pdf'', status = ''error'',
            fileSize = None, error = Some ''no tab''\<rparr>)]
         \<lparr>api_present = True, get_fault = None, set_fault = None,
          settings_slot = Some (JObj [(''maxHistoryItems'', JNum (Finite 1))]), history_slot = None\<rparr>
         = Some st'
       \<and> loadPrintHistory st' =
           Inr [\<lparr>entry_id = 2, timestamp = ''t2'',
                 entry_item = \<lparr>filename = ''b.pdf'', fullPath = ''/d/b.pdf'', status = ''error'',
                   fileSize = None, error = Some ''no tab''\<rparr>\<rparr>])"
proof -
  let ?st = "\<lparr>api_present = True, get_fault = None, set_fault = None,
       settings_slot = Some (JObj [(''maxHistoryItems'', JNum (Finite 1))]), history_slot = None\<rparr>"
  let ?s = "validateSettings (JObj [(''maxHistoryItems'', JNum (Finite 1))])"
  have a: "api_present ?st" and g: "get_fault ?st = None" and w: "set_fault ?st = None"
    by simp_all
  have l: "loadSettings ?st = Inr ?s"
    by (simp add: loadSettings_def getStorageAPI_def)
  have m: "maxHistoryItems ?s = Finite (real 1)"
    by (simp add: validateSettings_def)
  have h: "loadPrintHistory ?st = Inr []"
    by (simp add: loadPrintHistory_def getStorageAPI_def)
  let ?xs = "[(\<lparr>date_now = 1, date_iso = ''t1''\<rparr>,
           \<lparr>filename = ''a.pdf'', fullPath = ''/d/a.pdf'', status = ''printed'',
            fileSize = Some 10, error = None\<rparr>),
          (\<lparr>date_now = 2, date_iso = ''t2''\<rparr>,
           \<lparr>filename = ''b.pdf'', fullPath = ''/d/b.pdf'', status = ''error'',
            fileSize = None, error = Some ''no tab''\<rparr>)]"
  obtain st' where r: "appendAll ?xs ?st = Some st'"
      "loadPrintHistory st' = Inr (take 1 (rev (map (\<lambda>x. newEntry (fst x) (snd x)) ?xs)))"
    using history_trimming [OF a g w l m h, of ?xs] by blast
  have "loadPrintHistory st' =
           Inr [\<lparr>entry_id = 2, timestamp = ''t2'',
                 entry_item = \<lparr>filename = ''b.pdf'', fullPath = ''/d/b.pdf'', status = ''error'',
                   fileSize = None, error = Some ''no tab''\<rparr>\<rparr>]"
    using r(2) by (simp add: newEntry_def)
  then show ?thesis using h r(1) by blast
qed

text \<open>
  The cap is not checked anywhere: the options form stores any non-zero integer the user
  types. Under a negative cap the trimming loop of \<open>addToPrintHistory\<close> empties the
  list and then keeps calling \<open>pop\<close> on it for ever, so the call never returns and
  nothing is written.
\<close>

theorem addToPrintHistory_negative_cap:
  assumes "loadSettings st = Inr s" "maxHistoryItems s = Finite r" "r < 0"
  shows "addToPrintHistory clk item st = None"
proof -
  obtain h where "loadPrintHistory st = Inr h" using loadPrintHistory_total by blast
  then show ?thesis using assms by (simp add: addToPrintHistory_def trimHistory_negative)
qed

theorem addToPrintHistory_negative_cap_witness:
  "addToPrintHistory \<lparr>date_now = 1, date_iso = ''t1''\<rparr>
     \<lparr>filename = ''a.pdf'', fullPath = ''/d/a.pdf'', status = ''printed'',
      fileSize = Some 10, error = None\<rparr>
     \<lparr>api_present = True, get_fault = None, set_fault = None,
      settings_slot = Some (JObj [(''maxHistoryItems'', JNum (Finite (- 5)))]),
      history_slot = None\<rparr> = None"
proof -
  let ?st = "\<lparr>api_present = True, get_fault = None, set_fault = None,
      settings_slot = Some (JObj [(''maxHistoryItems'', JNum (Finite (- 5)))]),
      history_slot = None\<rparr>"
  have l: "loadSettings ?st = Inr (validateSettings (JObj [(''maxHistoryItems'', JNum (Finite (- 5)))]))"
    by (simp add: loadSettings_def getStorageAPI_def)
  have m: "maxHistoryItems (validateSettings (JObj [(''maxHistoryItems'', JNum (Finite (- 5)))])) = Finite (- 5)"
    by (simp add: validateSettings_def)
  have n: "(- 5 :: real) < 0" by simp
  show ?thesis using addToPrintHistory_negative_cap [OF l m n] by simp
qed

section \<open>The orchestrator\<close>

lemma showNotification_frame:
  "store (showNotification ev ttl msg ty w) = store w
   \<and> tabs_opened (showNotification ev ttl msg ty w) = tabs_opened w
   \<and> printed_tabs (showNotification ev ttl msg ty w) = printed_tabs w
   \<and> tabs_to_close (showNotification ev ttl msg ty w) = tabs_to_close w
   \<and> currentSettings (showNotification ev ttl msg ty w) = currentSettings w"
  by (simp add: showNotification_def)

lemma initialize_frame:
  "store (initialize w) = store w
   \<and> notifications (initialize w) = notifications w
   \<and> tabs_opened (initialize w) = tabs_opened w
   \<and> printed_tabs (initialize w) = printed_tabs w
   \<and> tabs_to_close (initialize w) = tabs_to_close w"
  by (simp add: initialize_def updateBadge_def Let_def split: sum.splits)

lemma initialize_idle: "isInitialized w \<Longrightarrow> initialize w = w"
  by (simp add: initialize_def)

lemma getFilename_example: "getFilename \<lparr>dl_filename = ''/d/a.pdf'', dl_fileSize = Some 2048\<rparr> = ''a.pdf''"
  by (simp add: getFilename_def isPathSeparator_def)

text \<open>
  Claim C7. A download-change event that does not report the state \<open>complete\<close> leaves
  the whole state as it is. An event that arrives while the settings in effect (the
  cache, loaded first when the worker is not initialised yet) are missing or have
  \<open>enabled = false\<close> changes neither the storage (so no history entry is added) nor the
  notifications, and no tab is opened and no print is triggered.
\<close>

theorem handleDownloadChanged_ignored:
  "(state_current d \<noteq> Some ''complete'' \<longrightarrow> handleDownloadChanged ev d w = Some w)
   \<and> ((\<forall>s. currentSettings (initialize w) = Some s \<longrightarrow> \<not> enabled s) \<longrightarrow>
        (\<exists>w'. handleDownloadChanged ev d w = Some w'
           \<and> store w' = store w
           \<and> notifications w' = notifications w
           \<and> tabs_opened w' = tabs_opened w
           \<and> printed_tabs w' = printed_tabs w
           \<and> tabs_to_close w' = tabs_to_close w))"
proof -
  have a: "state_current d \<noteq> Some ''complete'' \<longrightarrow> handleDownloadChanged ev d w = Some w"
    by (simp add: handleDownloadChanged_def)
  have i: "(if \<not> isInitialized w then initialize w else w) = initialize w"
    by (simp add: initialize_idle)
  have b: "handleDownloadChanged ev d w = Some w \<or> handleDownloadChanged ev d w = Some (initialize w)"
    if "\<forall>s. currentSettings (initialize w) = Some s \<longrightarrow> \<not> enabled s"
    using that unfolding handleDownloadChanged_def i Let_def
    by (cases "currentSettings (initialize w)") auto
  show ?thesis using a b initialize_frame [of w] by metis
qed

theorem handleDownloadChanged_ignored_witness:
  "handleDownloadChanged
        \<lparr>downloads_search = (\<lambda>i. Inr [\<lparr>dl_filename = ''/d/a.pdf'', dl_fileSize = Some 2048\<rparr>]),
        tabs_create = (\<lambda>u. Inr 7),
        execute_script = (\<lambda>t. None),
        notifications_create_throws = False,
        clock_reading = \<lparr>date_now = 1700000000000, date_iso = ''2023-11-14T22:13:20.000Z''\<rparr>\<rparr>
        \<lparr>delta_id = 5, state_current = Some ''in_progress''\<rparr>
        \<lparr>currentSettings = Some \<lparr>enabled = True, prefixFilter = [], extensionFilter = [],
          showNotifications = True, maxHistoryItems = Finite 100\<rparr>,
        isInitialized = True,
        store = \<lparr>api_present = True, get_fault = None, set_fault = None,
          settings_slot = Some (JObj [(''enabled'', JBool True)]), history_slot = None\<rparr>,
        notifications = [], tabs_opened = [], printed_tabs = [], tabs_to_close = [],
        badge = (''ON'', ''#22c55e''), change_listeners = 1\<rparr>
   = Some \<lparr>currentSettings = Some \<lparr>enabled = True, prefixFilter = [], extensionFilter = [],
          showNotifications = True, maxHistoryItems = Finite 100\<rparr>,
        isInitialized = True,
        store = \<lparr>api_present = True, get_fault = None, set_fault = None,
          settings_slot = Some (JObj [(''enabled'', JBool True)]), history_slot = None\<rparr>,
        notifications = [], tabs_opened = [], printed_tabs = [], tabs_to_close = [],
        badge = (''ON'', ''#22c55e''), change_listeners = 1\<rparr>
   \<and> (\<exists>w'. handleDownloadChanged
        \<lparr>downloads_search = (\<lambda>i. Inr [\<lparr>dl_filename = ''/d/a.pdf'', dl_fileSize = Some 2048\<rparr>]),
        tabs_create = (\<lambda>u. Inr 7),
        execute_script = (\<lambda>t. None),
        notifications_create_throws = False,
        clock_reading = \<lparr>date_now = 1700000000000, date_iso = ''2023-11-14T22:13:20.000Z''\<rparr>\<rparr>
        \<lparr>delta_id = 5, state_current = Some ''complete''\<rparr>
        \<lparr>currentSettings = Some \<lparr>enabled = False, prefixFilter = [], extensionFilter = [],
          showNotifications = True, maxHistoryItems = Finite 100\<rparr>,
        isInitialized = True,
        store = \<lparr>api_present = True, get_fault = None, set_fault = None,
          settings_slot = Some (JObj [(''enabled'', JBool False)]), history_slot = None\<rparr>,
        notifications = [], tabs_opened = [], printed_tabs = [], tabs_to_close = [],
        badge = ([], ''#6b7280''), change_listeners = 1\<rparr> = Some w'
      \<and> loadPrintHistory (store w') = Inr []
      \<and> notifications w' = []
      \<and> tabs_opened w' = []
      \<and> printed_tabs w' = [])"
proof -
  let ?ev = "\<lparr>downloads_search = (\<lambda>i. Inr [\<lparr>dl_filename = ''/d/a.pdf'', dl_fileSize = Some 2048\<rparr>]),
        tabs_create = (\<lambda>u. Inr 7),
        execute_script = (\<lambda>t. None),
        notifications_create_throws = False,
        clock_reading = \<lparr>date_now = 1700000000000, date_iso = ''2023-11-14T22:13:20.000Z''\<rparr>\<rparr>"
  let ?w1 = "\<lparr>currentSettings = Some \<lparr>enabled = True, prefixFilter = [], extensionFilter = [],
          showNotifications = True, maxHistoryItems = Finite 100\<rparr>,
        isInitialized = True,
        store = \<lparr>api_present = True, get_fault = None, set_fault = None,
          settings_slot = Some (JObj [(''enabled'', JBool True)]), history_slot = None\<rparr>,
        notifications = [], tabs_opened = [], printed_tabs = [], tabs_to_close = [],
        badge = (''ON'', ''#22c55e''), change_listeners = 1\<rparr>"
  let ?w0 = "\<lparr>currentSettings = Some \<lparr>enabled = False, prefixFilter = [], extensionFilter = [],
          showNotifications = True, maxHistoryItems = Finite 100\<rparr>,
        isInitialized = True,
        store = \<lparr>api_present = True, get_fault = None, set_fault = None,
          settings_slot = Some (JObj [(''enabled'', JBool False)]), history_slot = None\<rparr>,
        notifications = [], tabs_opened = [], printed_tabs = [], tabs_to_close = [],
        badge = ([], ''#6b7280''), change_listeners = 1\<rparr>"
  let ?dp = "\<lparr>delta_id = 5, state_current = Some ''in_progress''\<rparr>"
  let ?dc = "\<lparr>delta_id = 5, state_current = Some ''complete''\<rparr>"
  have p: "state_current ?dp \<noteq> Some ''complete''" by simp
  have a: "handleDownloadChanged ?ev ?dp ?w1 = Some ?w1"
    using handleDownloadChanged_ignored [of ?dp ?ev ?w1] p by blast
  have off: "\<forall>s. currentSettings (initialize ?w0) = Some s \<longrightarrow> \<not> enabled s"
    by (simp add: initialize_def)
  obtain w' where r: "handleDownloadChanged ?ev ?dc ?w0 = Some w'" "store w' = store ?w0"
      "notifications w' = notifications ?w0" "tabs_opened w' = tabs_opened ?w0"
      "printed_tabs w' = printed_tabs ?w0"
    using handleDownloadChanged_ignored [of ?dc ?ev ?w0] off by blast
  have "loadPrintHistory (store w') = Inr []"
    using r(2) by (simp add: loadPrintHistory_def getStorageAPI_def)
  moreover have "notifications w' = []" "tabs_opened w' = []" "printed_tabs w' = []"
    using r(3,4,5) by simp_all
  ultimately show ?thesis using a r(1) by blast
qed

text \<open>
  Claim C2, as amended. When the extension is enabled and the search for the completed
  download's id returns no item, the workflow stops there: the storage is unchanged (no
  history entry, so no entry with status \<open>error\<close>), no notification is created, and no
  tab is opened.
\<close>

theorem handleDownloadChanged_not_found:
  assumes "state_current d = Some ''complete''"
    and "currentSettings (initialize w) = Some s" "enabled s"
    and "downloads_search ev (delta_id d) = Inr []"
  shows "handleDownloadChanged ev d w = Some (initialize w)
         \<and> store (initialize w) = store w
         \<and> notifications (initialize w) = notifications w
         \<and> tabs_opened (initialize w) = tabs_opened w
         \<and> printed_tabs (initialize w) = printed_tabs w"
proof -
  have i: "(if \<not> isInitialized w then initialize w else w) = initialize w"
    by (simp add: initialize_idle)
  have "handleDownloadChanged ev d w = Some (initialize w)"
    using assms unfolding handleDownloadChanged_def i Let_def by simp
  then show ?thesis using initialize_frame [of w] by simp
qed

theorem handleDownloadChanged_not_found_witness:
  "handleDownloadChanged
        \<lparr>downloads_search = (\<lambda>i. Inr []),
        tabs_create = (\<lambda>u. Inr 7),
        execute_script = (\<lambda>t. None),
        notifications_create_throws = False,
        clock_reading = \<lparr>date_now = 1700000000000, date_iso = ''2023-11-14T22:13:20.000Z''\<rparr>\<rparr>
        \<lparr>delta_id = 5, state_current = Some ''complete''\<rparr>
        \<lparr>currentSettings = Some \<lparr>enabled = True, prefixFilter = [], extensionFilter = [],
          showNotifications = True, maxHistoryItems = Finite 100\<rparr>,
        isInitialized = True,
        store = \<lparr>api_present = True, get_fault = None, set_fault = None,
          settings_slot = Some (JObj [(''enabled'', JBool True)]), history_slot = None\<rparr>,
        notifications = [], tabs_opened = [], printed_tabs = [], tabs_to_close = [],
        badge = (''ON'', ''#22c55e''), change_listeners = 1\<rparr>
   = Some \<lparr>currentSettings = Some \<lparr>enabled = True, prefixFilter = [], extensionFilter = [],
          showNotifications = True, maxHistoryItems = Finite 100\<rparr>,
        isInitialized = True,
        store = \<lparr>api_present = True, get_fault = None, set_fault = None,
          settings_slot = Some (JObj [(''enabled'', JBool True)]), history_slot = None\<rparr>,
        notifications = [], tabs_opened = [], printed_tabs = [], tabs_to_close = [],
        badge = (''ON'', ''#22c55e''), change_listeners = 1\<rparr>"
proof -
  let ?ev = "\<lparr>downloads_search = (\<lambda>i. Inr []),
        tabs_create = (\<lambda>u. Inr 7),
        execute_script = (\<lambda>t. None),
        notifications_create_throws = False,
        clock_reading = \<lparr>date_now = 1700000000000, date_iso = ''2023-11-14T22:13:20.000Z''\<rparr>\<rparr>"
  let ?d = "\<lparr>delta_id = 5, state_current = Some ''complete''\<rparr>"
  let ?w = "\<lparr>currentSettings = Some \<lparr>enabled = True, prefixFilter = [], extensionFilter = [],
          showNotifications = True, maxHistoryItems = Finite 100\<rparr>,
        isInitialized = True,
        store = \<lparr>api_present = True, get_fault = None, set_fault = None,
          settings_slot = Some (JObj [(''enabled'', JBool True)]), history_slot = None\<rparr>,
        notifications = [], tabs_opened = [], printed_tabs = [], tabs_to_close = [],
        badge = (''ON'', ''#22c55e''), change_listeners = 1\<rparr>"
  have i: "initialize ?w = ?w" by (simp add: initialize_def)
  have c: "state_current ?d = Some ''complete''" by simp
  have s: "currentSettings (initialize ?w) = Some \<lparr>enabled = True, prefixFilter = [], extensionFilter = [],
          showNotifications = True, maxHistoryItems = Finite 100\<rparr>"
    by (simp add: initialize_def)
  have e: "enabled \<lparr>enabled = True, prefixFilter = [], extensionFilter = [],
          showNotifications = True, maxHistoryItems = Finite 100\<rparr>" by simp
  have n: "downloads_search ?ev (delta_id ?d) = Inr []" by simp
  show ?thesis using handleDownloadChanged_not_found [OF c s e n] i by simp
qed

text \<open>
  Claim C2 as stated fails: with the extension enabled, notifications on and an empty
  history, a \<open>complete\<close> event whose download is not found leaves the history empty and
  creates no notification.
\<close>

theorem handleDownloadChanged_not_found_counterexample:
  "map_option (\<lambda>w. (loadPrintHistory (store w), notifications w))
     (handleDownloadChanged
        \<lparr>downloads_search = (\<lambda>i. Inr []),
        tabs_create = (\<lambda>u. Inr 7),
        execute_script = (\<lambda>t. None),
        notifications_create_throws = False,
        clock_reading = \<lparr>date_now = 1700000000000, date_iso = ''2023-11-14T22:13:20.000Z''\<rparr>\<rparr>
        \<lparr>delta_id = 5, state_current = Some ''complete''\<rparr>
        \<lparr>currentSettings = Some \<lparr>enabled = True, prefixFilter = [], extensionFilter = [],
          showNotifications = True, maxHistoryItems = Finite 100\<rparr>,
        isInitialized = True,
        store = \<lparr>api_present = True, get_fault = None, set_fault = None,
          settings_slot = Some (JObj [(''enabled'', JBool True)]), history_slot = None\<rparr>,
        notifications = [], tabs_opened = [], printed_tabs = [], tabs_to_close = [],
        badge = (''ON'', ''#22c55e''), change_listeners = 1\<rparr>)
   = Some (Inr [], [])"
  by (simp add: handleDownloadChanged_def loadPrintHistory_def getStorageAPI_def Let_def)

text \<open>
  Claim C1, as amended. When the tab was opened and the script injection that triggers
  printing throws, \<open>printFile\<close> returns \<open>true\<close>; the notification that the file is open
  and ready for manual printing is created exactly when the cached settings have
  \<open>showNotifications = true\<close> (and creating it does not throw); the storage is unchanged,
  so no entry is added to the history; and the tab is not scheduled for closing.
\<close>

theorem printFile_trigger_failure:
  assumes "tabs_create ev (''file://'' @ dl_filename item) = Inr tab"
    and "execute_script ev tab = Some scriptError"
  shows "\<exists>w'. printFile ev item w = Some (True, w')
           \<and> store w' = store w
           \<and> notifications w' =
               (if (\<exists>s. currentSettings w = Some s \<and> showNotifications s)
                     \<and> \<not> notifications_create_throws ev
                then notifications w @
                       [\<lparr>note_kind = ''autoprint_success'', note_title = ''AutoPrint: File Ready'',
                         note_message = quoted (getFilename item) @
                           '' opened for printing. Press Ctrl+P to print.''\<rparr>]
                else notifications w)
           \<and> tabs_opened w' = tabs_opened w @ [(tab, ''file://'' @ dl_filename item)]
           \<and> printed_tabs w' = printed_tabs w
           \<and> tabs_to_close w' = tabs_to_close w"
  using assms
  by (cases "currentSettings w") (simp_all add: printFile_def Let_def showNotification_def)

theorem printFile_trigger_failure_witness:
  "\<exists>w'. printFile
        \<lparr>downloads_search = (\<lambda>i. Inr [\<lparr>dl_filename = ''/d/a.pdf'', dl_fileSize = Some 2048\<rparr>]),
        tabs_create = (\<lambda>u. Inr 7),
        execute_script = (\<lambda>t. Some ''Cannot access contents of the page''),
        notifications_create_throws = False,
        clock_reading = \<lparr>date_now = 1700000000000, date_iso = ''2023-11-14T22:13:20.000Z''\<rparr>\<rparr>
        \<lparr>dl_filename = ''/d/a.pdf'', dl_fileSize = Some 2048\<rparr>
        \<lparr>currentSettings = Some \<lparr>enabled = True, prefixFilter = [], extensionFilter = [],
          showNotifications = True, maxHistoryItems = Finite 100\<rparr>,
        isInitialized = True,
        store = \<lparr>api_present = True, get_fault = None, set_fault = None,
          settings_slot = Some (JObj [(''enabled'', JBool True)]), history_slot = None\<rparr>,
        notifications = [], tabs_opened = [], printed_tabs = [], tabs_to_close = [],
        badge = (''ON'', ''#22c55e''), change_listeners = 1\<rparr> = Some (True, w')
     \<and> loadPrintHistory (store w') = Inr []
     \<and> notifications w' =
          [\<lparr>note_kind = ''autoprint_success'', note_title = ''AutoPrint: File Ready'',
             note_message = quoted ''a.pdf'' @ '' opened for printing. Press Ctrl+P to print.''\<rparr>]
     \<and> tabs_to_close w' = []"
proof -
  let ?ev = "\<lparr>downloads_search = (\<lambda>i. Inr [\<lparr>dl_filename = ''/d/a.pdf'', dl_fileSize = Some 2048\<rparr>]),
        tabs_create = (\<lambda>u. Inr 7),
        execute_script = (\<lambda>t. Some ''Cannot access contents of the page''),
        notifications_create_throws = False,
        clock_reading = \<lparr>date_now = 1700000000000, date_iso = ''2023-11-14T22:13:20.000Z''\<rparr>\<rparr>"
  let ?item = "\<lparr>dl_filename = ''/d/a.pdf'', dl_fileSize = Some 2048\<rparr>"
  let ?w = "\<lparr>currentSettings = Some \<lparr>enabled = True, prefixFilter = [], extensionFilter = [],
          showNotifications = True, maxHistoryItems = Finite 100\<rparr>,
        isInitialized = True,
        store = \<lparr>api_present = True, get_fault = None, set_fault = None,
          settings_slot = Some (JObj [(''enabled'', JBool True)]), history_slot = None\<rparr>,
        notifications = [], tabs_opened = [], printed_tabs = [], tabs_to_close = [],
        badge = (''ON'', ''#22c55e''), change_listeners = 1\<rparr>"
  have t: "tabs_create ?ev (''file://'' @ dl_filename ?item) = Inr 7" by simp
  have x: "execute_script ?ev 7 = Some ''Cannot access contents of the page''" by simp
  obtain w' where r: "printFile ?ev ?item ?w = Some (True, w')" "store w' = store ?w"
     "notifications w' =
               (if (\<exists>s. currentSettings ?w = Some s \<and> showNotifications s)
                     \<and> \<not> notifications_create_throws ?ev
                then notifications ?w @
                       [\<lparr>note_kind = ''autoprint_success'', note_title = ''AutoPrint: File Ready'',
                         note_message = quoted (getFilename ?item) @
                           '' opened for printing. Press Ctrl+P to print.''\<rparr>]
                else notifications ?w)"
     "tabs_to_close w' = tabs_to_close ?w"
    using printFile_trigger_failure [OF t x, of ?w] by blast
  have "loadPrintHistory (store w') = Inr []"
    using r(2) by (simp add: loadPrintHistory_def getStorageAPI_def)
  moreover have "notifications w' = [\<lparr>note_kind = ''autoprint_success'', note_title = ''AutoPrint: File Ready'',
             note_message = quoted ''a.pdf'' @ '' opened for printing. Press Ctrl+P to print.''\<rparr>]"
    using r(3) by (simp add: getFilename_example)
  moreover have "tabs_to_close w' = []" using r(4) by simp
  ultimately show ?thesis using r(1) by blast
qed

text \<open>
  Claim C1 as stated fails where it says that an entry is appended to the history: with
  an empty history, a run whose print trigger throws ends with \<open>true\<close> and the history
  still empty.
\<close>

theorem printFile_trigger_failure_counterexample:
  "map_option (\<lambda>r. (fst r, loadPrintHistory (store (snd r))))
     (printFile
        \<lparr>downloads_search = (\<lambda>i. Inr [\<lparr>dl_filename = ''/d/a.pdf'', dl_fileSize = Some 2048\<rparr>]),
        tabs_create = (\<lambda>u. Inr 7),
        execute_script = (\<lambda>t. Some ''Cannot access contents of the page''),
        notifications_create_throws = False,
        clock_reading = \<lparr>date_now = 1700000000000, date_iso = ''2023-11-14T22:13:20.000Z''\<rparr>\<rparr>
        \<lparr>dl_filename = ''/d/a.pdf'', dl_fileSize = Some 2048\<rparr>
        \<lparr>currentSettings = Some \<lparr>enabled = True, prefixFilter = [], extensionFilter = [],
          showNotifications = True, maxHistoryItems = Finite 100\<rparr>,
        isInitialized = True,
        store = \<lparr>api_present = True, get_fault = None, set_fault = None,
          settings_slot = Some (JObj [(''enabled'', JBool True)]), history_slot = None\<rparr>,
        notifications = [], tabs_opened = [], printed_tabs = [], tabs_to_close = [],
        badge = (''ON'', ''#22c55e''), change_listeners = 1\<rparr>)
   = Some (True, Inr [])"
  by (simp add: printFile_def showNotification_def loadPrintHistory_def getStorageAPI_def Let_def)

text \<open>
  The run in which everything works: the tab is opened, printing is triggered on it, an
  entry with status \<open>printed\<close> is put in front of the history (trimmed to the cap), the
  success notification is created when notifications are on, the tab is scheduled for
  closing, and the result is \<open>true\<close>.
\<close>

theorem printFile_printed:
  assumes "tabs_create ev (''file://'' @ dl_filename item) = Inr tab"
    and "execute_script ev tab = None"
    and "api_present (store w)" "get_fault (store w) = None" "set_fault (store w) = None"
    and "loadSettings (store w) = Inr s" "maxHistoryItems s = Finite (real C)"
    and "loadPrintHistory (store w) = Inr h"
  shows "\<exists>w'. printFile ev item w = Some (True, w')
           \<and> loadPrintHistory (store w') =
               Inr (take C (newEntry (clock_reading ev)
                      \<lparr>filename = getFilename item, fullPath = dl_filename item,
                       status = ''printed'', fileSize = dl_fileSize item, error = None\<rparr> # h))
           \<and> notifications w' =
               (if (\<exists>s. currentSettings w = Some s \<and> showNotifications s)
                     \<and> \<not> notifications_create_throws ev
                then notifications w @
                       [\<lparr>note_kind = ''autoprint_success'',
                         note_title = ''AutoPrint: File Sent to Printer'',
                         note_message = quoted (getFilename item) @ '' has been sent to the printer.''\<rparr>]
                else notifications w)
           \<and> tabs_opened w' = tabs_opened w @ [(tab, ''file://'' @ dl_filename item)]
           \<and> printed_tabs w' = printed_tabs w @ [tab]
           \<and> tabs_to_close w' = tabs_to_close w @ [tab]"
proof -
  let ?it = "\<lparr>filename = getFilename item, fullPath = dl_filename item,
                       status = ''printed'', fileSize = dl_fileSize item, error = None\<rparr>"
  have a: "addToPrintHistory (clock_reading ev) ?it (store w) =
      Some (Inr (newEntry (clock_reading ev) ?it),
            (store w)\<lparr>history_slot := Some (take C (newEntry (clock_reading ev) ?it # h))\<rparr>)"
    using assms(3-8) by (rule addToPrintHistory_healthy)
  have l: "loadPrintHistory ((store w)\<lparr>history_slot := Some (take C (newEntry (clock_reading ev) ?it # h))\<rparr>)
             = Inr (take C (newEntry (clock_reading ev) ?it # h))"
    using assms(3,4) by (rule loadPrintHistory_history_update)
  show ?thesis
    using assms(1,2) a l
    by (cases "currentSettings w") (simp_all add: printFile_def Let_def showNotification_def)
qed

theorem printFile_printed_witness:
  "\<exists>w'. printFile
        \<lparr>downloads_search = (\<lambda>i. Inr []),
        tabs_create = (\<lambda>u. Inr 7),
        execute_script = (\<lambda>t. None),
        notifications_create_throws = False,
        clock_reading = \<lparr>date_now = 1700000000000, date_iso = ''2023-11-14T22:13:20.000Z''\<rparr>\<rparr>
        \<lparr>dl_filename = ''/d/a.pdf'', dl_fileSize = Some 2048\<rparr>
        \<lparr>currentSettings = Some \<lparr>enabled = True, prefixFilter = [], extensionFilter = [],
          showNotifications = True, maxHistoryItems = Finite 100\<rparr>,
        isInitialized = True,
        store = \<lparr>api_present = True, get_fault = None, set_fault = None,
          settings_slot = Some (JObj [(''enabled'', JBool True)]), history_slot = None\<rparr>,
        notifications = [], tabs_opened = [], printed_tabs = [], tabs_to_close = [],
        badge = (''ON'', ''#22c55e''), change_listeners = 1\<rparr> = Some (True, w')
     \<and> loadPrintHistory (store w') =
          Inr [\<lparr>entry_id = 1700000000000, timestamp = ''2023-11-14T22:13:20.000Z'',
                entry_item = \<lparr>filename = ''a.pdf'', fullPath = ''/d/a.pdf'', status = ''printed'',
                  fileSize = Some 2048, error = None\<rparr>\<rparr>]
     \<and> printed_tabs w' = [7]
     \<and> tabs_to_close w' = [7]"
proof -
  let ?ev = "\<lparr>downloads_search = (\<lambda>i. Inr []),
        tabs_create = (\<lambda>u. Inr 7),
        execute_script = (\<lambda>t. None),
        notifications_create_throws = False,
        clock_reading = \<lparr>date_now = 1700000000000, date_iso = ''2023-11-14T22:13:20.000Z''\<rparr>\<rparr>"
  let ?item = "\<lparr>dl_filename = ''/d/a.pdf'', dl_fileSize = Some 2048\<rparr>"
  let ?w = "\<lparr>currentSettings = Some \<lparr>enabled = True, prefixFilter = [], extensionFilter = [],
          showNotifications = True, maxHistoryItems = Finite 100\<rparr>,
        isInitialized = True,
        store = \<lparr>api_present = True, get_fault = None, set_fault = None,
          settings_slot = Some (JObj [(''enabled'', JBool True)]), history_slot = None\<rparr>,
        notifications = [], tabs_opened = [], printed_tabs = [], tabs_to_close = [],
        badge = (''ON'', ''#22c55e''), change_listeners = 1\<rparr>"
  let ?s = "validateSettings (JObj [(''enabled'', JBool True)])"
  have a: "api_present (store ?w)" and g: "get_fault (store ?w) = None"
    and f: "set_fault (store ?w) = None" by simp_all
  have l: "loadSettings (store ?w) = Inr ?s" by (simp add: loadSettings_def getStorageAPI_def)
  have m: "maxHistoryItems ?s = Finite (real 100)"
    by (simp add: validateSettings_def getDefaultSettings_def)
  have h: "loadPrintHistory (store ?w) = Inr []"
    by (simp add: loadPrintHistory_def getStorageAPI_def)
  have t: "tabs_create ?ev (''file://'' @ dl_filename ?item) = Inr 7" by simp
  have x: "execute_script ?ev 7 = None" by simp
  obtain w' where r: "printFile ?ev ?item ?w = Some (True, w')"
      "loadPrintHistory (store w') =
               Inr (take 100 (newEntry (clock_reading ?ev)
                      \<lparr>filename = getFilename ?item, fullPath = dl_filename ?item,
                       status = ''printed'', fileSize = dl_fileSize ?item, error = None\<rparr> # []))"
      "printed_tabs w' = printed_tabs ?w @ [7]" "tabs_to_close w' = tabs_to_close ?w @ [7]"
    using printFile_printed [OF t x a g f l m h] by blast
  have "loadPrintHistory (store w') =
          Inr [\<lparr>entry_id = 1700000000000, timestamp = ''2023-11-14T22:13:20.000Z'',
                entry_item = \<lparr>filename = ''a.pdf'', fullPath = ''/d/a.pdf'', status = ''printed'',
                  fileSize = Some 2048, error = None\<rparr>\<rparr>]"
    using r(2) by (simp add: newEntry_def getFilename_example)
  moreover have "printed_tabs w' = [7]" "tabs_to_close w' = [7]" using r(3,4) by simp_all
  ultimately show ?thesis using r(1) by blast
qed

text \<open>
  The run in which the tab cannot be opened: nothing is opened or printed, an entry with
  status \<open>error\<close> and the message of the failure is put in front of the history, the
  failure notification is created when notifications are on, and the result is \<open>false\<close>.
\<close>

theorem printFile_open_failed:
  assumes "tabs_create ev (''file://'' @ dl_filename item) = Inl msg"
    and "api_present (store w)" "get_fault (store w) = None" "set_fault (store w) = None"
    and "loadSettings (store w) = Inr s" "maxHistoryItems s = Finite (real C)"
    and "loadPrintHistory (store w) = Inr h"
  shows "\<exists>w'. printFile ev item w = Some (False, w')
           \<and> loadPrintHistory (store w') =
               Inr (take C (newEntry (clock_reading ev)
                      \<lparr>filename = getFilename item, fullPath = dl_filename item,
                       status = ''error'', fileSize = None, error = Some msg\<rparr> # h))
           \<and> notifications w' =
               (if (\<exists>s. currentSettings w = Some s \<and> showNotifications s)
                     \<and> \<not> notifications_create_throws ev
                then notifications w @
                       [\<lparr>note_kind = ''autoprint_error'',
                         note_title = ''AutoPrint: Print Failed'',
                         note_message = ''Failed to print '' @ quoted (getFilename item) @ '': '' @ msg\<rparr>]
                else notifications w)
           \<and> tabs_opened w' = tabs_opened w
           \<and> printed_tabs w' = printed_tabs w
           \<and> tabs_to_close w' = tabs_to_close w"
proof -
  let ?it = "\<lparr>filename = getFilename item, fullPath = dl_filename item,
                       status = ''error'', fileSize = None, error = Some msg\<rparr>"
  have a: "addToPrintHistory (clock_reading ev) ?it (store w) =
      Some (Inr (newEntry (clock_reading ev) ?it),
            (store w)\<lparr>history_slot := Some (take C (newEntry (clock_reading ev) ?it # h))\<rparr>)"
    using assms(2-7) by (rule addToPrintHistory_healthy)
  have l: "loadPrintHistory ((store w)\<lparr>history_slot := Some (take C (newEntry (clock_reading ev) ?it # h))\<rparr>)
             = Inr (take C (newEntry (clock_reading ev) ?it # h))"
    using assms(2,3) by (rule loadPrintHistory_history_update)
  show ?thesis
    using assms(1) a l
    by (cases "currentSettings w") (simp_all add: printFile_def printFailed_def Let_def showNotification_def)
qed

theorem printFile_open_failed_witness:
  "\<exists>w'. printFile
        \<lparr>downloads_search = (\<lambda>i. Inr []),
        tabs_create = (\<lambda>u. Inl ''No current window''),
        execute_script = (\<lambda>t. None),
        notifications_create_throws = False,
        clock_reading = \<lparr>date_now = 1700000000000, date_iso = ''2023-11-14T22:13:20.000Z''\<rparr>\<rparr>
        \<lparr>dl_filename = ''/d/a.pdf'', dl_fileSize = Some 2048\<rparr>
        \<lparr>currentSettings = Some \<lparr>enabled = True, prefixFilter = [], extensionFilter = [],
          showNotifications = True, maxHistoryItems = Finite 100\<rparr>,
        isInitialized = True,
        store = \<lparr>api_present = True, get_fault = None, set_fault = None,
          settings_slot = Some (JObj [(''enabled'', JBool True)]), history_slot = None\<rparr>,
        notifications = [], tabs_opened = [], printed_tabs = [], tabs_to_close = [],
        badge = (''ON'', ''#22c55e''), change_listeners = 1\<rparr> = Some (False, w')
     \<and> loadPrintHistory (store w') =
          Inr [\<lparr>entry_id = 1700000000000, timestamp = ''2023-11-14T22:13:20.000Z'',
                entry_item = \<lparr>filename = ''a.pdf'', fullPath = ''/d/a.pdf'', status = ''error'',
                  fileSize = None, error = Some ''No current window''\<rparr>\<rparr>]
     \<and> notifications w' =
          [\<lparr>note_kind = ''autoprint_error'', note_title = ''AutoPrint: Print Failed'',
            note_message = ''Failed to print '' @ quoted ''a.pdf'' @ '': No current window''\<rparr>]"
proof -
  let ?ev = "\<lparr>downloads_search = (\<lambda>i. Inr []),
        tabs_create = (\<lambda>u. Inl ''No current window''),
        execute_script = (\<lambda>t. None),
        notifications_create_throws = False,
        clock_reading = \<lparr>date_now = 1700000000000, date_iso = ''2023-11-14T22:13:20.000Z''\<rparr>\<rparr>"
  let ?item = "\<lparr>dl_filename = ''/d/a.pdf'', dl_fileSize = Some 2048\<rparr>"
  let ?w = "\<lparr>currentSettings = Some \<lparr>enabled = True, prefixFilter = [], extensionFilter = [],
          showNotifications = True, maxHistoryItems = Finite 100\<rparr>,
        isInitialized = True,
        store = \<lparr>api_present = True, get_fault = None, set_fault = None,
          settings_slot = Some (JObj [(''enabled'', JBool True)]), history_slot = None\<rparr>,
        notifications = [], tabs_opened = [], printed_tabs = [], tabs_to_close = [],
        badge = (''ON'', ''#22c55e''), change_listeners = 1\<rparr>"
  let ?s = "validateSettings (JObj [(''enabled'', JBool True)])"
  have a: "api_present (store ?w)" and g: "get_fault (store ?w) = None"
    and f: "set_fault (store ?w) = None" by simp_all
  have l: "loadSettings (store ?w) = Inr ?s" by (simp add: loadSettings_def getStorageAPI_def)
  have m: "maxHistoryItems ?s = Finite (real 100)"
    by (simp add: validateSettings_def getDefaultSettings_def)
  have h: "loadPrintHistory (store ?w) = Inr []"
    by (simp add: loadPrintHistory_def getStorageAPI_def)
  have t: "tabs_create ?ev (''file://'' @ dl_filename ?item) = Inl ''No current window''" by simp
  obtain w' where r: "printFile ?ev ?item ?w = Some (False, w')"
      "loadPrintHistory (store w') =
               Inr (take 100 (newEntry (clock_reading ?ev)
                      \<lparr>filename = getFilename ?item, fullPath = dl_filename ?item,
                       status = ''error'', fileSize = None, error = Some ''No current window''\<rparr> # []))"
      "notifications w' =
               (if (\<exists>s. currentSettings ?w = Some s \<and> showNotifications s)
                     \<and> \<not> notifications_create_throws ?ev
                then notifications ?w @
                       [\<lparr>note_kind = ''autoprint_error'',
                         note_title = ''AutoPrint: Print Failed'',
                         note_message = ''Failed to print '' @ quoted (getFilename ?item) @ '': '' @ ''No current window''\<rparr>]
                else notifications ?w)"
    using printFile_open_failed [OF t a g f l m h] by blast
  have "loadPrintHistory (store w') =
          Inr [\<lparr>entry_id = 1700000000000, timestamp = ''2023-11-14T22:13:20.000Z'',
                entry_item = \<lparr>filename = ''a.pdf'', fullPath = ''/d/a.pdf'', status = ''error'',
                  fileSize = None, error = Some ''No current window''\<rparr>\<rparr>]"
    using r(2) by (simp add: newEntry_def getFilename_example)
  moreover have "notifications w' =
          [\<lparr>note_kind = ''autoprint_error'', note_title = ''AutoPrint: Print Failed'',
            note_message = ''Failed to print '' @ quoted ''a.pdf'' @ '': No current window''\<rparr>]"
    using r(3) by (simp add: getFilename_example)
  ultimately show ?thesis using r(1) by blast
qed

end
